theory Spec2Isabelle
  imports Complex_Main "HOL-Library.AList" "HOL-Library.Log_Nat"
begin

section \<open>Python values used by the bot\<close>

text \<open>
  Python strings are modelled as \<open>string\<close> (the UTF-8 bytes of the text). Every literal the
  code compares against is ASCII, so equality, prefix and suffix tests on bytes agree with
  Python's tests on code points.
\<close>

subsection \<open>String helpers\<close>

text \<open>\<open>str.lower()\<close> on one character: only \<open>A\<close>..\<open>Z\<close> change. The result is only ever
  looked up among hexadecimal addresses (\<open>0\<close>..\<open>9\<close>, \<open>a\<close>..\<open>f\<close>, \<open>x\<close>), and no character
  outside ASCII lower-cases to one of those, so the byte-wise function decides the same
  look-ups as Python's.\<close>

definition lower_char :: "char \<Rightarrow> char" where
  "lower_char c =
     (case map_of (zip ''ABCDEFGHIJKLMNOPQRSTUVWXYZ'' ''abcdefghijklmnopqrstuvwxyz'') c of
        None \<Rightarrow> c
      | Some d \<Rightarrow> d)"

definition lower :: "string \<Rightarrow> string" where
  "lower s = map lower_char s"

text \<open>\<open>s.startswith(p)\<close> and \<open>s.endswith(p)\<close>.\<close>

definition startswith :: "string \<Rightarrow> string \<Rightarrow> bool" where
  "startswith s p = (take (length p) s = p)"

definition endswith :: "string \<Rightarrow> string \<Rightarrow> bool" where
  "endswith s p = (length p \<le> length s \<and> drop (length s - length p) s = p)"

section \<open>Configuration (config.py)\<close>

text \<open>The dictionary \<open>VERIFIED_TOKENS\<close>, in source order: lower-cased contract address to
  symbol.\<close>

definition VERIFIED_TOKENS :: "(string \<times> string) list" where
  "VERIFIED_TOKENS = [
    (''0x760afe86e5de5fa0ee542fc7b7b713e1c5425701'', ''WMON''),
    (''0xf817257fed379853cde0fa4f97ab987181b1e5ea'', ''USDC''),
    (''0xb2f82d0f38dc453d596ad40a37799446cc89274a'', ''aprMON''),
    (''0x88b8e2161dedc77ef4ab7585569d2415a1c1055d'', ''USDT''),
    (''0xe0590015a873bf326bd645c3e1266d4db41c4e6b'', ''CHOG''),
    (''0x0f0bdedbf0f83cd1ee3974779bcb7315f9808c714'', ''DAK''),
    (''0xfe140e1dce99be9f4f15d657cd9b7bf622270c50'', ''YAKI''),
    (''0xaeef2f6b429cb59c9b2d7bb2141ada993e8571c3'', ''gMON''),
    (''0x3a98250f98dd388c211206983453837c8365bdc1'', ''shMON''),
    (''0xb5a30b0fdc5ea94a52fdc42e3e9760cb8449fb37'', ''WETH''),
    (''0xe1d2439b75fb9746e7bc6cb777ae10aa7f7ef9c5'', ''sMON''),
    (''0x268e4e24e0051ec27b3d27a95977e71ce6875a05'', ''BEAN''),
    (''0xc8527e96c3cb9522f6e35e95c0a28feab8144f15'', ''MAD''),
    (''0x89e4a70de5f2ae468b18b6b6300b249387f9adf0'', ''fMON''),
    (''0xcf5a6076cfa32686c0df13abada2b40dec133f1d'', ''WBTC''),
    (''0xcc5b42f9d6144dfdfb6fb3987a2a916af902f5f8'', ''JAI''),
    (''0x5d876d73f4441d5f2438b1a3e2a51771b337f27a'', ''USDC''),
    (''0xb5481b57ff4e23ea7d2fda70f3137b16d0d99118'', ''CVE''),
    (''0x6bb379a2056d1304e73012b99338f8f581ee2e18'', ''WBTC''),
    (''0x0efed4d9fb7863ccc7bb392847c08dcd00fe9be2'', ''muBOND''),
    (''0x5387c85a4965769f6b0df430638a1388493486f1'', ''WSOL''),
    (''0x4aa50e8208095d9594d18e8e3008abb811125dce'', ''MOON''),
    (''0x7fdf92a43c54171f9c278c67088ca43f2079d09b'', ''LUSD''),
    (''0x5b54153100e40000f6821a7ea8101dc8f5186c2d'', ''SWETH''),
    (''0x57c914e3240c837ebe87f096e0b4d9a06e3f489b'', ''monUSD''),
    (''0x38a3321a419b8688f539a600e3c7898a0528737f'', ''BLZP''),
    (''0xb38bb873cca844b20a9ee448a87af3626a6e1ef5'', ''MIST''),
    (''0x04a9d9d4aea93f512a4c7b71993915004325ed38'', ''HEDGE''),
    (''0x786f4aa162457ecdf8fa4657759fa3e86c9394ff'', ''MAD-LP''),
    (''0xceb564775415b524640d9f688278490a7f3ef9cd'', ''iceMON''),
    (''0x954a9b30f5aece2c1581e33b16d9ddfcd473a0f8'', ''KESO''),
    (''0x0e1c9362cdea1d556e5ff89140107126baaf6b09'', ''aprMON''),
    (''0x199c0da6f291a897302300aaae4f20d139162916'', ''stMON''),
    (''0xbdd352f339e27e07089039ba80029f9135f6146f'', ''USDm''),
    (''0xa2426cd97583939e79cfc12ac6e9121e37d0904d'', ''PINGU''),
    (''0xfa47b094a9666422848f459b54dab88b0e8255e9'', ''MONKA''),
    (''0x4c632c40c2dcd39c20ee7ecdd6f9743a3c7ffe6b'', ''TED''),
    (''0x3b428df09c3508d884c30266ac1577f099313cf6'', ''mamaBTC''),
    (''0xca9a4f46faf5628466583486fd5ace8ac33ce126'', ''OCTO''),
    (''0x0c0c92fcf37ae2cbcc512e59714cd3a1a1cbc411'', ''MONDA''),
    (''0x43e52cbc0073caa7c0cf6e64b576ce2d6fb14eb8'', ''NOM''),
    (''0x8f3a8ae1f1859636e82ca4e30db9fb129b02d825'', ''suUSD''),
    (''0xc85548e0191cd34be8092b0d42eb4e45eba0d581'', ''NSTR''),
    (''0x8589a0dd9ecd77b7d70ff76147dce366bf31254e'', ''gigaETH''),
    (''0x301f38161dd907b7602c91b8e6303ed6992c0d8e'', ''MONDA-V2''),
    (''0x93e9cae50424c7a4e3c5eceb7855b6dab74bc803'', ''NAP''),
    (''0x7b55354900d2a7c241785fe178e90a0f7685bf57'', ''HASH''),
    (''0xcd6b9ff949bd7336f29cc9520ff9fdf200e8b8f6'', ''AUSD''),
    (''0x2c7d4cc1f7377a2a2b581669b40e5b3383b9a949'', ''OWL''),
    (''0x8a86d48c867b76ff74a36d3af4d2f1e707b143ed'', ''RBSD''),
    (''0x11517333d9a65ca3331c3c60bb288fa98013a2ed'', ''CHOG''),
    (''0xb5e5fa5837304fea6b9ce7e09623e63669ad95fb'', ''NFT''),
    (''0x3247b7d8100556ce6fc1a4141c117104ef806850'', ''suETH''),
    (''0xfe5bc01ff7631d495630331e02b4aeaa0bf9840d'', ''ANGLER''),
    (''0x4961c832469fcbb468c0a794de32faaa30ccd2f6'', ''suBTC''),
    (''0x8a056df4d7f23121a90aca1ca1364063d43ff3b8'', ''KEYS''),
    (''0x6ce1890eeadae7db01026f4b294cb8ec5ecc6563'', ''HALLI''),
    (''0x3552f8254263ea8880c7f7e25cb8dbbd79c0c4b1'', ''BMONAD''),
    (''0x44369aafdd04cd9609a57ec0237884f45dd80818'', ''P1''),
    (''0x24d2fd6c5b29eebd5169cc7d6e8014cd65decd73'', ''TFAT''),
    (''0x92eac40c98b383ea0f0efda747bdac7ac891d300'', ''RED''),
    (''0xd875ba8e2cad3c0f7e2973277c360c8d2f92b510'', ''USDX''),
    (''0x4a5c952c446d5c4bba9f4517b473ec1718c5f27a'', ''BUN''),
    (''0x7a1a3679a5fe97d1da3683c3807a179e26f532b1'', ''ZF''),
    (''0x6200db750d4a6a2ed84181dbddc5e0029c238cba'', ''RTMD''),
    (''0xd2707f681ee0c1b5f3a0eb2618628477f31edbce'', ''KOL''),
    (''0xa998716fdc8da0bd024235dd208a70d257eca763'', ''APR''),
    (''0x88aac8165144564ee8b8abdc9099992345fbb56a'', ''NEX''),
    (''0x8d71ccf6bc1358e677e84ddcbe8386ccb36134ea'', ''$DASH''),
    (''0x0569049e527bb151605eec7bf48cfd55bd2bf4c8'', ''DAKIMAKURA''),
    (''0x739d4f237623583852db0d102b37996c35f400b5'', ''Doon''),
    (''0x1b4cb47622705f0f67b6b18bbd1cb1a91fc77d37'', ''shMON''),
    (''0xb91615806c743c03d7584d7c688dffd2e7077af4'', ''moonpig''),
    (''0xfaaad2849f35282e96151a4944bd9e0082b60a08'', ''MNAD''),
    (''0xf793fde80c3a92eb8a6074803ca6976c87b1a90a'', ''BERZAN''),
    (''0x111f0d8c86c61cc73713720d7899e1b40d8297d5'', ''LONG''),
    (''0x8a618e0266a87581c5d3d5135afe6ea16bcf5d52'', ''PN''),
    (''0x1498fcb65fcf4237b57b75fafecdebbdef22e119'', ''MONFUN''),
    (''0xafb0d64f308423d16ef8833b901dbdd750554438'', ''NOM''),
    (''0x6c6a73cb3549c8480f08420ee2e5dfaf9d2d4cdb'', ''LINK'')
  ]"

definition HIGH_VALUE_TOKENS :: "string list" where
  "HIGH_VALUE_TOKENS = [''MON'', ''MONAD'', ''WMON'', ''USDC'', ''USDT'', ''WETH'', ''WBTC'']"

text \<open>\<open>key in d\<close> for a dictionary given by its items.\<close>

definition dict_contains :: "('k \<times> 'v) list \<Rightarrow> 'k \<Rightarrow> bool" where
  "dict_contains d k = (k \<in> set (map fst d))"

section \<open>Blockchain manager (blockchain.py)\<close>

subsection \<open>The verified-token predicate\<close>

definition stablecoins :: "string list" where
  "stablecoins = [''USDT'', ''USDC'', ''DAI'', ''BUSD'', ''FRAX'', ''R2USD'']"

definition is_token_verified :: "string \<Rightarrow> string \<Rightarrow> bool" where
  "is_token_verified token_address symbol =
     (if dict_contains VERIFIED_TOKENS (lower token_address) then True
      else if symbol \<in> set HIGH_VALUE_TOKENS then True
      else if symbol \<in> set stablecoins \<or> endswith symbol ''.a'' then True
      else False)"


section \<open>Python numbers\<close>

text \<open>
  Python's \<open>int\<close> is \<open>int\<close>. A \<open>Decimal\<close> and a finite \<open>float\<close> are both modelled by the
  rational number they denote; the operations on floats round their exact result to the
  nearest IEEE 754 binary64 value, ties to even, as CPython does on the platforms it
  supports. Infinities and NaN are not modelled: every float below comes from a balance, a
  quote of at most 256 bits, a slippage percentage or a clock reading.
\<close>

type_synonym pyfloat = rat
type_synonym decimal = rat

definition round_half_even :: "rat \<Rightarrow> int" where
  "round_half_even x =
     (let f = \<lfloor>x\<rfloor>; d = x - of_int f
      in if d < 1 / 2 then f else if 1 / 2 < d then f + 1 else if even f then f else f + 1)"

text \<open>The number of digits of a positive integer \<open>n\<close> in base \<open>b\<close>.\<close>

function ndigits :: "int \<Rightarrow> int \<Rightarrow> int" where
  "ndigits b n = (if 0 < n \<and> 1 < b then ndigits b (n div b) + 1 else 0)"
  by pat_completeness auto
termination
  by (relation "measure (\<lambda>(b, n). nat n)") (auto simp: int_div_less_self)

declare ndigits.simps [simp del]

text \<open>\<open>ilog b x\<close> is the integer \<open>k\<close> with \<open>b ^ k \<le> x < b ^ (k + 1)\<close>, for \<open>x > 0\<close> and
  \<open>b \<ge> 2\<close>: the difference of the digit counts of numerator and denominator is \<open>k\<close> or
  \<open>k + 1\<close>.\<close>

definition ilog :: "int \<Rightarrow> rat \<Rightarrow> int" where
  "ilog b x =
     (let (p, q) = quotient_of x;
          k = ndigits b p - ndigits b q
      in if power_int (of_int b) k \<le> x then k else k - 1)"

text \<open>Rounding to binary64: 53 significant bits, and a spacing of \<open>2 ^ - 1074\<close> in the
  subnormal range.\<close>

definition float_round :: "rat \<Rightarrow> pyfloat" where
  "float_round x =
     (if x = 0 then 0
      else let e = max (ilog 2 \<bar>x\<bar> - 52) (- 1074); u = power_int 2 e
           in of_int (round_half_even (x / u)) * u)"

text \<open>\<open>float(n)\<close> for an integer and \<open>float(d)\<close> for a \<open>Decimal\<close>; \<open>a - b\<close>, \<open>a * b\<close> and
  \<open>a / b\<close> on floats (the divisors in the code are non-zero constants); \<open>int(x)\<close>, which
  truncates toward zero.\<close>

definition float_of_int :: "int \<Rightarrow> pyfloat" where
  "float_of_int n = float_round (of_int n)"

definition float_of_decimal :: "decimal \<Rightarrow> pyfloat" where
  "float_of_decimal d = float_round d"

definition float_sub :: "pyfloat \<Rightarrow> pyfloat \<Rightarrow> pyfloat" where
  "float_sub a b = float_round (a - b)"

definition float_mul :: "pyfloat \<Rightarrow> pyfloat \<Rightarrow> pyfloat" where
  "float_mul a b = float_round (a * b)"

definition float_div :: "pyfloat \<Rightarrow> pyfloat \<Rightarrow> pyfloat" where
  "float_div a b = float_round (a / b)"

definition int_of_float :: "pyfloat \<Rightarrow> int" where
  "int_of_float x = (if 0 \<le> x then \<lfloor>x\<rfloor> else \<lceil>x\<rceil>)"

text \<open>\<open>int(d)\<close> for a \<open>Decimal\<close> truncates toward zero as well.\<close>

definition int_of_decimal :: "decimal \<Rightarrow> int" where
  "int_of_decimal d = (if 0 \<le> d then \<lfloor>d\<rfloor> else \<lceil>d\<rceil>)"

text \<open>Arithmetic on \<open>Decimal\<close> rounds to the 28 significant digits of the default context,
  ties to even.\<close>

definition decimal_round :: "rat \<Rightarrow> decimal" where
  "decimal_round x =
     (if x = 0 then 0
      else let u = power_int 10 (ilog 10 \<bar>x\<bar> - 27)
           in of_int (round_half_even (x / u)) * u)"

definition decimal_mul :: "decimal \<Rightarrow> decimal \<Rightarrow> decimal" where
  "decimal_mul a b = decimal_round (a * b)"

text \<open>Errors raised by the code, as values.\<close>

datatype error =
    ValueError string
  | Exception string
  | IncorrectPassphrase

section \<open>Master-key encryption service (security.py)\<close>

text \<open>
  \<open>SecurityManager\<close> wraps a \<open>Fernet\<close> object of the \<open>cryptography\<close> library, built from
  the operator's key. The library is outside the repository, so the object is a parameter:
  its two methods, on the text of plaintexts and tokens. \<open>fernet_encrypt\<close> takes the clock
  reading and initialisation vector the library draws for the call (as one number), since
  two calls on the same plaintext give different tokens; \<open>fernet_decrypt\<close> returns \<open>None\<close>
  where the library raises \<open>InvalidToken\<close>.
\<close>

record fernet =
  fernet_encrypt :: "nat \<Rightarrow> string \<Rightarrow> string"
  fernet_decrypt :: "string \<Rightarrow> string option"

text \<open>What the library guarantees of a Fernet object: a token decrypts to the plaintext it
  was made from, and a token is never the empty string (it carries a version byte, a
  timestamp, the vector and a MAC).\<close>

definition fernet_sound :: "fernet \<Rightarrow> bool" where
  "fernet_sound F =
     (\<forall>r m. fernet_decrypt F (fernet_encrypt F r m) = Some m \<and> fernet_encrypt F r m \<noteq> [])"

text \<open>\<open>SecurityManager.encrypt_data\<close> and \<open>decrypt_data\<close>.\<close>

definition encrypt_data :: "fernet \<Rightarrow> nat \<Rightarrow> string \<Rightarrow> error + string" where
  "encrypt_data F r plaintext = Inr (fernet_encrypt F r plaintext)"

definition decrypt_data :: "fernet \<Rightarrow> string \<Rightarrow> error + string" where
  "decrypt_data F ciphertext =
     (case fernet_decrypt F ciphertext of
        None \<Rightarrow> Inl (Exception ''Decryption failed: Invalid token or wrong encryption key'')
      | Some decrypted \<Rightarrow> Inr decrypted)"

text \<open>The module's entry points, \<open>encrypt_private_key\<close> and \<open>decrypt_private_key\<close>.\<close>

definition encrypt_private_key :: "fernet \<Rightarrow> nat \<Rightarrow> string \<Rightarrow> error + string" where
  "encrypt_private_key F r private_key =
     (if private_key = [] then Inl (ValueError ''Private key cannot be empty'')
      else encrypt_data F r
             (if \<not> startswith private_key ''0x'' then ''0x'' @ private_key else private_key))"

definition decrypt_private_key :: "fernet \<Rightarrow> string \<Rightarrow> error + string" where
  "decrypt_private_key F encrypted_key =
     (if encrypted_key = [] then Inl (ValueError ''Encrypted key cannot be empty'')
      else decrypt_data F encrypted_key)"

text \<open>A Fernet object to run the functions on: the token is the plaintext behind a fixed
  header (the first characters of every real token, which encode the version byte), and a
  text without the header is not a token. It has the two properties of \<open>fernet_sound\<close>.\<close>

definition plain_fernet :: fernet where
  "plain_fernet =
     \<lparr> fernet_encrypt = (\<lambda>r m. ''gAAAAA'' @ m),
       fernet_decrypt = (\<lambda>c. if startswith c ''gAAAAA'' then Some (drop 6 c) else None) \<rparr>"

section \<open>Persistence layer (database.py)\<close>

text \<open>A row of the table \<open>users\<close>; \<open>passphrase_salt\<close> is the nullable column.\<close>

record user =
  user_telegram_id :: int
  user_wallet_address :: string
  encrypted_private_key :: string
  passphrase_salt :: "string option"

text \<open>The table, by its primary key; \<open>get_user\<close> is the query by \<open>telegram_id\<close>.\<close>

type_synonym users = "int \<rightharpoonup> user"

definition get_user :: "users \<Rightarrow> int \<Rightarrow> user option" where
  "get_user db tid = db tid"

text \<open>Python's truth value of an optional string: \<open>None\<close> and \<open>''\<close> are false.\<close>

fun truthy :: "string option \<Rightarrow> bool" where
  "truthy None = False"
| "truthy (Some s) = (s \<noteq> [])"

text \<open>
  Modelled from the spec: \<open>security_passphrase.decrypt_with_passphrase\<close>, which database.py
  imports and whose file is not among the sources. The spec (4.3): it re-derives the
  symmetric key from the passphrase and the salt by a password-based key-derivation function
  and fails with IncorrectPassphrase if authentication fails. The key derivation and the
  authenticated decryption under a derived key are parameters.
\<close>

record passphrase_scheme =
  derive_key :: "string \<Rightarrow> string \<Rightarrow> string"
  authenticated_decrypt :: "string \<Rightarrow> string \<Rightarrow> string option"

definition decrypt_with_passphrase ::
  "passphrase_scheme \<Rightarrow> string \<Rightarrow> string \<Rightarrow> string \<Rightarrow> error + string" where
  "decrypt_with_passphrase P encrypted_key salt passphrase =
     (case authenticated_decrypt P (derive_key P passphrase salt) encrypted_key of
        None \<Rightarrow> Inl IncorrectPassphrase
      | Some plaintext \<Rightarrow> Inr plaintext)"

text \<open>\<open>DatabaseManager.get_decrypted_private_key\<close>: \<open>Inr None\<close> is the return value \<open>None\<close>,
  \<open>Inl\<close> an exception that reaches the caller.\<close>

definition get_decrypted_private_key ::
  "fernet \<Rightarrow> passphrase_scheme \<Rightarrow> users \<Rightarrow> int \<Rightarrow> string option \<Rightarrow> error + string option" where
  "get_decrypted_private_key F P db tid passphrase =
     (case get_user db tid of
        None \<Rightarrow> Inr None
      | Some u \<Rightarrow>
          if encrypted_private_key u = [] then Inr None
          else if truthy (passphrase_salt u) then
            (if \<not> truthy passphrase then Inl (ValueError ''Passphrase required for this wallet'')
             else map_sum id Some
                    (decrypt_with_passphrase P (encrypted_private_key u)
                       (the (passphrase_salt u)) (the passphrase)))
          else map_sum id Some (decrypt_private_key F (encrypted_private_key u)))"

text \<open>A passphrase scheme to run the function on: the derived key is the passphrase joined
  to the salt, and a ciphertext is the key, a colon and the plaintext.\<close>

definition plain_scheme :: passphrase_scheme where
  "plain_scheme =
     \<lparr> derive_key = (\<lambda>passphrase salt. passphrase @ ''/'' @ salt),
       authenticated_decrypt =
         (\<lambda>k c. if startswith c (k @ '':'') then Some (drop (length k + 1) c) else None) \<rparr>"

text \<open>A users table with one passphrase-protected wallet (user 7, salt \<open>s4lt\<close>, passphrase
  \<open>hunter22\<close>) and one master-key wallet (user 8), for running the function.\<close>

definition example_users :: users where
  "example_users =
     [7 \<mapsto> \<lparr> user_telegram_id = 7,
              user_wallet_address = ''0x00000000000000000000000000000000000000aa'',
              encrypted_private_key = ''hunter22/s4lt:0xabc'',
              passphrase_salt = Some ''s4lt'' \<rparr>,
      8 \<mapsto> \<lparr> user_telegram_id = 8,
              user_wallet_address = ''0x00000000000000000000000000000000000000bb'',
              encrypted_private_key = ''gAAAAA0xdef'',
              passphrase_salt = None \<rparr>]"

section \<open>Blockchain manager: balances (blockchain.py)\<close>

text \<open>
  Everything outside the process is a parameter of the model: the two enumeration helper
  processes, the RPC node's answers, and Python's parsing of a numeral (\<open>float(s)\<close>,
  \<open>Decimal(s)\<close>: \<open>None\<close> where they raise). A helper's outcome is \<open>None\<close> when the process
  times out, exits with a non-zero code or prints something that is not a JSON object, and
  its parsed output otherwise; a JSON field that may be missing is an option.
\<close>

record alchemy_token =
  at_symbol :: "string option"
  at_name :: "string option"
  at_balance :: "string option"
  at_decimals :: "int option"
  at_address :: "string option"

record alchemy_output =
  ao_ok :: bool
  ao_native_balance :: "string option"
  ao_tokens :: "alchemy_token list"

record blockvision_token =
  bt_symbol :: "string option"
  bt_balance :: "string option"
  bt_contractAddress :: "string option"
  bt_name :: "string option"
  bt_verified :: "bool option"
  bt_imageURL :: "string option"

record blockvision_output =
  bo_code :: int
  bo_data :: "blockvision_token list"

text \<open>One transfer of an \<open>alchemy_getAssetTransfers\<close> answer: \<open>tr_value\<close> and \<open>tr_address\<close> are
  \<open>None\<close> for a JSON \<open>null\<close>, on which the code raises.\<close>

record transfer =
  tr_value :: "rat option"
  tr_hash :: "string option"
  tr_address :: "string option"

record chain_env =
  parse_number :: "string \<Rightarrow> rat option"
  alchemy_helper :: "string \<Rightarrow> alchemy_output option"
  BLOCKVISION_API_KEY :: string
  blockvision_helper :: "string \<Rightarrow> string \<Rightarrow> blockvision_output option"
  eth_get_balance :: "string \<Rightarrow> int option"
  call_name :: "string \<Rightarrow> string option"
  call_symbol :: "string \<Rightarrow> string option"
  call_decimals :: "string \<Rightarrow> nat option"
  call_balanceOf :: "string \<Rightarrow> string \<Rightarrow> int option"
  alchemy_getAssetTransfers :: "string \<Rightarrow> string \<Rightarrow> transfer list option"

text \<open>The value stored under a symbol in a holdings dictionary. A key that a tier does not
  write (\<open>decimals\<close>, \<open>imageURL\<close>) is \<open>None\<close>; \<open>balance_increase\<close> and \<open>tx_hash\<close> are the
  keys the notification monitor adds.\<close>

record token_data =
  td_symbol :: string
  td_name :: string
  td_balance :: decimal
  td_decimals :: "int option"
  td_address :: string
  td_verified :: bool
  td_imageURL :: "string option"
  td_balance_increase :: "pyfloat option"
  td_tx_hash :: "string option"

text \<open>A dictionary keeps its keys in insertion order, and \<open>d[k] = v\<close> replaces the value of a
  key in place: the list of items with \<open>AList.update\<close>.\<close>

type_synonym holdings = "(string \<times> token_data) list"

definition get_or :: "'a option \<Rightarrow> 'a \<Rightarrow> 'a" where
  "get_or field dflt = (case field of None \<Rightarrow> dflt | Some v \<Rightarrow> v)"

subsection \<open>Single reads\<close>

definition get_native_balance :: "chain_env \<Rightarrow> string \<Rightarrow> decimal" where
  "get_native_balance env address =
     (case eth_get_balance env address of
        None \<Rightarrow> 0
      | Some balance_wei \<Rightarrow> of_int balance_wei / 10 ^ 18)"

record token_info =
  ti_address :: string
  ti_name :: string
  ti_symbol :: string
  ti_decimals :: nat

definition get_token_info :: "chain_env \<Rightarrow> string \<Rightarrow> token_info option" where
  "get_token_info env token_address =
     (case call_name env token_address of
        None \<Rightarrow> None
      | Some name \<Rightarrow>
          (case call_symbol env token_address of
             None \<Rightarrow> None
           | Some symbol \<Rightarrow>
               (case call_decimals env token_address of
                  None \<Rightarrow> None
                | Some decimals \<Rightarrow>
                    Some \<lparr> ti_address = token_address, ti_name = name, ti_symbol = symbol,
                           ti_decimals = decimals \<rparr>)))"

definition get_token_balance :: "chain_env \<Rightarrow> string \<Rightarrow> string \<Rightarrow> decimal \<times> nat" where
  "get_token_balance env token_address wallet_address =
     (case call_balanceOf env token_address wallet_address of
        None \<Rightarrow> (0, 18)
      | Some balance_raw \<Rightarrow>
          (case call_decimals env token_address of
             None \<Rightarrow> (0, 18)
           | Some decimals \<Rightarrow> (decimal_round (of_int balance_raw / 10 ^ decimals), decimals)))"

subsection \<open>\<open>get_wallet_all_tokens\<close>\<close>

definition native_entry :: "decimal \<Rightarrow> int option \<Rightarrow> token_data" where
  "native_entry native_balance decimals =
     \<lparr> td_symbol = ''MON'', td_name = ''Monad'', td_balance = native_balance,
       td_decimals = decimals,
       td_address = ''0x0000000000000000000000000000000000000000'', td_verified = True,
       td_imageURL = None, td_balance_increase = None, td_tx_hash = None \<rparr>"

text \<open>One iteration of the loop over the primary helper's tokens: \<open>None\<close> when it raises (the
  balance is not a numeral), \<open>Some None\<close> when it writes nothing, and the assignment
  \<open>balances[symbol] = {...}\<close> otherwise.\<close>

definition alchemy_token_step ::
  "chain_env \<Rightarrow> alchemy_token \<Rightarrow> (string \<times> token_data) option option" where
  "alchemy_token_step env token =
     (let symbol = get_or (at_symbol token) ''UNKNOWN'';
          balance_str = get_or (at_balance token) ''0'';
          token_address = get_or (at_address token) ''''
      in case parse_number env balance_str of
           None \<Rightarrow> None
         | Some balance \<Rightarrow>
             if 0 < float_of_decimal balance then
               Some (Some (symbol,
                 \<lparr> td_symbol = symbol, td_name = get_or (at_name token) symbol,
                   td_balance = balance, td_decimals = Some (get_or (at_decimals token) 18),
                   td_address = token_address,
                   td_verified = is_token_verified token_address symbol,
                   td_imageURL = None, td_balance_increase = None, td_tx_hash = None \<rparr>))
             else Some None)"

fun alchemy_tokens :: "chain_env \<Rightarrow> alchemy_token list \<Rightarrow> holdings \<Rightarrow> holdings option" where
  "alchemy_tokens env [] balances = Some balances"
| "alchemy_tokens env (token # rest) balances =
     (case alchemy_token_step env token of
        None \<Rightarrow> None
      | Some None \<Rightarrow> alchemy_tokens env rest balances
      | Some (Some (symbol, entry)) \<Rightarrow>
          alchemy_tokens env rest (AList.update symbol entry balances))"

text \<open>The primary tier: \<open>None\<close> when control leaves it without returning.\<close>

definition alchemy_tier :: "chain_env \<Rightarrow> string \<Rightarrow> holdings option" where
  "alchemy_tier env wallet_address =
     (case alchemy_helper env wallet_address of
        None \<Rightarrow> None
      | Some data \<Rightarrow>
          if \<not> ao_ok data then None
          else
            (let native_balance_str = get_or (ao_native_balance data) ''0''
             in if native_balance_str = [] then alchemy_tokens env (ao_tokens data) []
                else
                  (case parse_number env native_balance_str of
                     None \<Rightarrow> None
                   | Some native_balance \<Rightarrow>
                       alchemy_tokens env (ao_tokens data)
                         (if 0 < float_of_decimal native_balance
                          then AList.update ''MON'' (native_entry native_balance (Some 18)) []
                          else []))))"

text \<open>One iteration of the loop over the legacy helper's tokens; every failure inside it is
  a \<open>continue\<close>.\<close>

definition blockvision_token_step ::
  "chain_env \<Rightarrow> blockvision_token \<Rightarrow> (string \<times> token_data) option" where
  "blockvision_token_step env token =
     (let symbol = get_or (bt_symbol token) ''UNKNOWN'';
          balance = get_or (bt_balance token) ''0'';
          address = get_or (bt_contractAddress token) '''';
          name = get_or (bt_name token) symbol
      in case parse_number env balance of
           None \<Rightarrow> None
         | Some b \<Rightarrow>
             if float_of_decimal b = 0 then None
             else Some (symbol,
               \<lparr> td_symbol = symbol, td_name = name, td_balance = b, td_decimals = None,
                 td_address = address, td_verified = get_or (bt_verified token) False,
                 td_imageURL = Some (get_or (bt_imageURL token) ''''),
                 td_balance_increase = None, td_tx_hash = None \<rparr>))"

fun blockvision_tokens :: "chain_env \<Rightarrow> blockvision_token list \<Rightarrow> holdings \<Rightarrow> holdings" where
  "blockvision_tokens env [] balances = balances"
| "blockvision_tokens env (token # rest) balances =
     (case blockvision_token_step env token of
        None \<Rightarrow> blockvision_tokens env rest balances
      | Some (symbol, entry) \<Rightarrow>
          blockvision_tokens env rest (AList.update symbol entry balances))"

definition blockvision_tier :: "chain_env \<Rightarrow> string \<Rightarrow> holdings option" where
  "blockvision_tier env wallet_address =
     (let api_key = BLOCKVISION_API_KEY env
      in if api_key = [] then None
         else
           (case blockvision_helper env wallet_address api_key of
              None \<Rightarrow> None
            | Some data \<Rightarrow>
                if bo_code data \<noteq> 0 then None
                else Some (blockvision_tokens env (bo_data data) [])))"

definition native_tier :: "chain_env \<Rightarrow> string \<Rightarrow> holdings" where
  "native_tier env wallet_address =
     (let native_balance = get_native_balance env wallet_address
      in if native_balance \<noteq> 0
         then AList.update ''MON'' (native_entry native_balance (Some 18)) []
         else [])"

definition get_wallet_all_tokens :: "chain_env \<Rightarrow> string \<Rightarrow> holdings" where
  "get_wallet_all_tokens env wallet_address =
     (case alchemy_tier env wallet_address of
        Some balances \<Rightarrow> balances
      | None \<Rightarrow>
          (case blockvision_tier env wallet_address of
             Some balances \<Rightarrow> balances
           | None \<Rightarrow> native_tier env wallet_address))"

subsection \<open>\<open>get_tokens_from_history\<close>\<close>

text \<open>One iteration of the loop over the addresses of the user's history: the assignment
  it makes, if any.\<close>

definition history_token_step ::
  "chain_env \<Rightarrow> string \<Rightarrow> string \<Rightarrow> (string \<times> token_data) option" where
  "history_token_step env wallet_address token_address =
     (case get_token_info env token_address of
        None \<Rightarrow> None
      | Some info \<Rightarrow>
          (let balance = fst (get_token_balance env token_address wallet_address)
           in if 0 < balance then
                Some (ti_symbol info,
                  \<lparr> td_symbol = ti_symbol info, td_name = ti_name info, td_balance = balance,
                    td_decimals = Some (int (ti_decimals info)), td_address = token_address,
                    td_verified = True, td_imageURL = None, td_balance_increase = None,
                    td_tx_hash = None \<rparr>)
              else None))"

fun history_tokens :: "chain_env \<Rightarrow> string \<Rightarrow> string list \<Rightarrow> holdings \<Rightarrow> holdings" where
  "history_tokens env wallet_address [] balances = balances"
| "history_tokens env wallet_address (token_address # rest) balances =
     (case history_token_step env wallet_address token_address of
        None \<Rightarrow> history_tokens env wallet_address rest balances
      | Some (symbol, entry) \<Rightarrow>
          history_tokens env wallet_address rest (AList.update symbol entry balances))"

definition get_tokens_from_history :: "chain_env \<Rightarrow> string \<Rightarrow> string list \<Rightarrow> holdings" where
  "get_tokens_from_history env wallet_address token_addresses =
     (let native_balance = get_native_balance env wallet_address
      in history_tokens env wallet_address token_addresses
           (if native_balance \<noteq> 0
            then AList.update ''MON'' (native_entry native_balance None) []
            else []))"

section \<open>Notification monitor (notification_monitor.py)\<close>

text \<open>
  Modelled from the spec: \<open>db_manager.get_token_snapshot\<close> and \<open>update_token_snapshot\<close>,
  which the monitor calls and the database module among the sources does not define. The
  spec (4.4): \<open>get_token_snapshot(user_id)\<close> returns the last persisted holdings map, or an
  empty one; \<open>update_token_snapshot(user_id, holdings map)\<close> overwrites it wholesale.
\<close>

type_synonym snapshots = "int \<Rightarrow> holdings"

definition get_token_snapshot :: "snapshots \<Rightarrow> int \<Rightarrow> holdings" where
  "get_token_snapshot db telegram_id = db telegram_id"

definition update_token_snapshot :: "snapshots \<Rightarrow> int \<Rightarrow> holdings \<Rightarrow> snapshots" where
  "update_token_snapshot db telegram_id tokens = db(telegram_id := tokens)"

text \<open>The search for the transaction behind an increase, over the transfers of an
  \<open>alchemy_getAssetTransfers\<close> answer. The result is \<open>Some h\<close> when the loop assigns
  \<open>token_data['tx_hash'] = h\<close> (\<open>h\<close> is the transfer's \<open>hash\<close> field, which may be missing),
  and \<open>None\<close> when no transfer matches or the loop raises on a \<open>null\<close>.\<close>

definition close_to :: "pyfloat \<Rightarrow> pyfloat \<Rightarrow> bool" where
  "close_to tx_value balance_increase =
     (\<bar>float_sub tx_value balance_increase\<bar> < float_round (1 / 1000))"

fun find_native_tx :: "pyfloat \<Rightarrow> transfer list \<Rightarrow> string option option" where
  "find_native_tx balance_increase [] = None"
| "find_native_tx balance_increase (tx # rest) =
     (case tr_value tx of
        None \<Rightarrow> None
      | Some v \<Rightarrow>
          if close_to (float_round v) balance_increase then Some (tr_hash tx)
          else find_native_tx balance_increase rest)"

fun find_erc20_tx :: "string \<Rightarrow> pyfloat \<Rightarrow> transfer list \<Rightarrow> string option option" where
  "find_erc20_tx token_address balance_increase [] = None"
| "find_erc20_tx token_address balance_increase (tx # rest) =
     (case tr_address tx of
        None \<Rightarrow> None
      | Some a \<Rightarrow>
          (case tr_value tx of
             None \<Rightarrow> None
           | Some v \<Rightarrow>
               if lower a = token_address \<and> close_to (float_round v) balance_increase
               then Some (tr_hash tx)
               else find_erc20_tx token_address balance_increase rest))"

text \<open>The branch shared by the native currency and a known verified token: compare the
  balance with the snapshot's and, on an increase, annotate the entry and queue it.
  \<open>category\<close> is \<open>external\<close> for the native currency and \<open>erc20\<close> otherwise.\<close>

definition check_increase ::
  "chain_env \<Rightarrow> string \<Rightarrow> string \<Rightarrow> token_data \<Rightarrow> token_data \<Rightarrow> token_data \<times> token_data list" where
  "check_increase env wallet_address category old token_data =
     (let old_balance = float_of_decimal (td_balance old);
          new_balance = float_of_decimal (td_balance token_data)
      in if old_balance < new_balance then
           (let balance_increase = float_sub new_balance old_balance;
                increased = token_data \<lparr> td_balance_increase := Some balance_increase \<rparr>;
                found =
                  (case alchemy_getAssetTransfers env wallet_address category of
                     None \<Rightarrow> None
                   | Some transfers \<Rightarrow>
                       if category = ''external'' then find_native_tx balance_increase transfers
                       else find_erc20_tx (lower (td_address token_data)) balance_increase
                              transfers);
                annotated =
                  (case found of
                     None \<Rightarrow> increased
                   | Some h \<Rightarrow> increased \<lparr> td_tx_hash := h \<rparr>)
            in (annotated, [annotated]))
         else (token_data, []))"

text \<open>One iteration of the loop over \<open>current_tokens.items()\<close>: the entry as the iteration
  leaves it, and what it appends to \<open>new_tokens\<close>.\<close>

definition check_token ::
  "chain_env \<Rightarrow> string \<Rightarrow> holdings \<Rightarrow> string \<Rightarrow> token_data \<Rightarrow> token_data \<times> token_data list" where
  "check_token env wallet_address last_snapshot symbol token_data =
     (let is_new = \<not> dict_contains last_snapshot symbol
      in if symbol \<in> set [''MON'', ''MONAD''] then
           (if \<not> is_new then
              (case map_of last_snapshot symbol of
                 None \<Rightarrow> (token_data, [])
               | Some old \<Rightarrow> check_increase env wallet_address ''external'' old token_data)
            else (token_data, []))
         else if \<not> td_verified token_data then (token_data, [])
         else if is_new then
           (if 0 < td_balance token_data then (token_data, [token_data]) else (token_data, []))
         else
           (case map_of last_snapshot symbol of
              None \<Rightarrow> (token_data, [])
            | Some old \<Rightarrow> check_increase env wallet_address ''erc20'' old token_data))"

fun compare_tokens ::
  "chain_env \<Rightarrow> string \<Rightarrow> holdings \<Rightarrow> holdings \<Rightarrow> token_data list \<Rightarrow> holdings \<times> token_data list" where
  "compare_tokens env wallet_address last_snapshot [] new_tokens = ([], new_tokens)"
| "compare_tokens env wallet_address last_snapshot ((symbol, token_data) # rest) new_tokens =
     (let (entry, queued) = check_token env wallet_address last_snapshot symbol token_data;
          (others, result) =
            compare_tokens env wallet_address last_snapshot rest (new_tokens @ queued)
      in ((symbol, entry) # others, result))"

text \<open>\<open>check_user_for_new_tokens\<close>: the snapshots after the check, and the tokens passed to
  \<open>send_token_notification\<close>, which sends one message for each.\<close>

definition check_user_for_new_tokens ::
  "chain_env \<Rightarrow> snapshots \<Rightarrow> int \<Rightarrow> string \<Rightarrow> snapshots \<times> token_data list" where
  "check_user_for_new_tokens env db telegram_id wallet_address =
     (let current_tokens = get_wallet_all_tokens env wallet_address
      in if current_tokens = [] then (db, [])
         else
           (let last_snapshot = get_token_snapshot db telegram_id
            in if last_snapshot = [] then
                 (update_token_snapshot db telegram_id current_tokens, [])
               else
                 (let (tokens, new_tokens) =
                        compare_tokens env wallet_address last_snapshot current_tokens []
                  in (update_token_snapshot db telegram_id tokens, new_tokens))))"

section \<open>Blockchain manager: trading (blockchain.py)\<close>

text \<open>
  A transaction as \<open>build_transaction\<close> returns it: the contract, the call with its
  arguments, and the fields the code sets. \<open>tx_gas\<close> is the limit that \<open>build_transaction\<close>
  fills in by estimation.
\<close>

datatype contract_call =
    Approve string int
  | SwapExactETHForTokens int "string list" string int
  | SwapExactTokensForETH int int "string list" string int

record transaction =
  tx_to :: string
  tx_call :: contract_call
  tx_sender :: string
  tx_value :: int
  tx_nonce :: int
  tx_maxFeePerGas :: int
  tx_maxPriorityFeePerGas :: int
  tx_chainId :: int
  tx_gas :: "int option"

text \<open>The state the trading functions act on: the raw transactions handed to
  \<open>send_raw_transaction\<close> so far (each a transaction and the key that signed it), oldest
  first, and the reading of \<open>time.time()\<close>. Only \<open>time.sleep\<close> moves the clock: the time
  the other statements take is not modelled.\<close>

record world =
  sent :: "(transaction \<times> string) list"
  now :: pyfloat

text \<open>The web3 library and the node behind it. A function returns \<open>None\<close> where the call
  raises (an address or key that is not valid, a call that reverts, a node that does not
  answer or rejects the transaction); the node's answers may depend on the state.
  \<open>to_wei_ether\<close> is \<open>w3.to_wei(_, 'ether')\<close> and \<open>build_gas\<close> the estimation inside
  \<open>build_transaction\<close>.\<close>

record web3_env =
  reads :: chain_env
  DEX_ROUTER_ADDRESS :: string
  to_checksum_address :: "string \<Rightarrow> string option"
  account_from_key :: "string \<Rightarrow> string option"
  to_wei_ether :: "decimal \<Rightarrow> int option"
  allowance :: "world \<Rightarrow> string \<Rightarrow> string \<Rightarrow> string \<Rightarrow> int option"
  get_transaction_count :: "world \<Rightarrow> string \<Rightarrow> int option"
  getAmountsOut :: "world \<Rightarrow> int \<Rightarrow> string list \<Rightarrow> int list option"
  build_gas :: "world \<Rightarrow> transaction \<Rightarrow> int option"
  send_raw_transaction :: "world \<Rightarrow> transaction \<times> string \<Rightarrow> string option"

definition WETH_ADDRESS :: string where
  "WETH_ADDRESS = ''0x760afe86e5de5fa0ee542fc7b7b713e1c5425701''"

definition CHAIN_ID :: int where
  "CHAIN_ID = 10143"

text \<open>\<open>GAS_PRICE_MODES.get(gas_mode, GAS_PRICE_MODES['normal'])\<close>, as the pair
  (\<open>maxFeePerGas\<close>, \<open>maxPriorityFeePerGas\<close>) in gwei, and \<open>w3.to_wei(_, 'gwei')\<close> of an
  integer.\<close>

definition gas_params :: "string \<Rightarrow> int \<times> int" where
  "gas_params gas_mode =
     (if gas_mode = ''fast'' then (150, 5)
      else if gas_mode = ''very_fast'' then (200, 10)
      else (100, 2))"

definition to_wei_gwei :: "int \<Rightarrow> int" where
  "to_wei_gwei n = n * 10 ^ 9"

text \<open>\<open>build_transaction\<close>, and the two statements that sign and send: the raw transaction
  is recorded whether or not the node accepts it, and the result is the hash the node
  returns.\<close>

definition build_transaction :: "web3_env \<Rightarrow> world \<Rightarrow> transaction \<Rightarrow> transaction option" where
  "build_transaction W st tx =
     (case build_gas W st tx of
        None \<Rightarrow> None
      | Some g \<Rightarrow> Some (tx \<lparr> tx_gas := Some g \<rparr>))"

definition sign_and_send ::
  "web3_env \<Rightarrow> world \<Rightarrow> transaction \<Rightarrow> string \<Rightarrow> string option \<times> world" where
  "sign_and_send W st tx private_key =
     (send_raw_transaction W st (tx, private_key),
      st \<lparr> sent := sent st @ [(tx, private_key)] \<rparr>)"

subsection \<open>\<open>approve_token\<close>\<close>

text \<open>The statements of \<open>approve_token\<close> up to \<open>build_transaction\<close>: \<open>None\<close> when one of them
  raises, \<open>Some None\<close> when the allowance suffices, and the built transaction otherwise.\<close>

definition approve_request ::
  "web3_env \<Rightarrow> world \<Rightarrow> string \<Rightarrow> string \<Rightarrow> int \<Rightarrow> string \<Rightarrow> string \<Rightarrow>
     transaction option option" where
  "approve_request W st token_address spender_address amount private_key gas_mode =
     (case to_checksum_address W token_address of
        None \<Rightarrow> None
      | Some checksum_token \<Rightarrow>
     (case to_checksum_address W spender_address of
        None \<Rightarrow> None
      | Some checksum_spender \<Rightarrow>
     (case account_from_key W private_key of
        None \<Rightarrow> None
      | Some account \<Rightarrow>
     (case allowance W st checksum_token account checksum_spender of
        None \<Rightarrow> None
      | Some current_allowance \<Rightarrow>
          if amount \<le> current_allowance then Some None
          else
     (case get_transaction_count W st account of
        None \<Rightarrow> None
      | Some nonce \<Rightarrow>
     (case build_transaction W st
             \<lparr> tx_to = checksum_token, tx_call = Approve checksum_spender amount,
               tx_sender = account, tx_value = 0, tx_nonce = nonce,
               tx_maxFeePerGas = to_wei_gwei (fst (gas_params gas_mode)),
               tx_maxPriorityFeePerGas = to_wei_gwei (snd (gas_params gas_mode)),
               tx_chainId = CHAIN_ID, tx_gas = None \<rparr> of
        None \<Rightarrow> None
      | Some transaction \<Rightarrow> Some (Some transaction)))))))"

definition approve_token ::
  "web3_env \<Rightarrow> world \<Rightarrow> string \<Rightarrow> string \<Rightarrow> int \<Rightarrow> string \<Rightarrow> string \<Rightarrow>
     string option \<times> world" where
  "approve_token W st token_address spender_address amount private_key gas_mode =
     (case approve_request W st token_address spender_address amount private_key gas_mode of
        None \<Rightarrow> (None, st)
      | Some None \<Rightarrow> (Some ''ALREADY_APPROVED'', st)
      | Some (Some transaction) \<Rightarrow> sign_and_send W st transaction private_key)"

subsection \<open>\<open>buy_token\<close> and \<open>sell_token\<close>\<close>

text \<open>The minimum output and the two deadlines, as the code computes them: in floating
  point, truncated by \<open>int\<close>.\<close>

definition min_output_of :: "int \<Rightarrow> pyfloat \<Rightarrow> int" where
  "min_output_of expected_output slippage =
     int_of_float
       (float_mul (float_of_int expected_output) (float_sub 1 (float_div slippage 100)))"

definition buy_deadline :: "world \<Rightarrow> int" where
  "buy_deadline st = int_of_float (now st) + 300"

definition sell_deadline :: "world \<Rightarrow> int" where
  "sell_deadline st = int_of_float (now st) + 60 * 20"

text \<open>What the functions return; \<open>amount_in\<close> is the amount whose text the code returns.\<close>

record buy_result =
  br_tx_hash :: string
  br_amount_in :: decimal
  br_expected_output :: int
  br_min_output :: int

record sell_result =
  sr_tx_hash :: string
  sr_amount_in :: decimal
  sr_expected_output :: decimal
  sr_min_output :: decimal
  sr_approve_hash :: "string option"

definition from_wei_ether :: "int \<Rightarrow> decimal" where
  "from_wei_ether n = of_int n / 10 ^ 18"

text \<open>The statements of \<open>buy_token\<close> up to \<open>build_transaction\<close>: the built transaction with
  the quote and the minimum output, or \<open>None\<close> when one of them raises.\<close>

definition buy_request ::
  "web3_env \<Rightarrow> world \<Rightarrow> string \<Rightarrow> decimal \<Rightarrow> string \<Rightarrow> string \<Rightarrow> pyfloat \<Rightarrow> string \<Rightarrow>
     (transaction \<times> int \<times> int) option" where
  "buy_request W st token_address amount_monad wallet_address private_key slippage gas_mode =
     (case to_checksum_address W token_address of
        None \<Rightarrow> None
      | Some checksum_token \<Rightarrow>
     (case to_checksum_address W WETH_ADDRESS of
        None \<Rightarrow> None
      | Some checksum_weth \<Rightarrow>
     (case to_checksum_address W wallet_address of
        None \<Rightarrow> None
      | Some checksum_wallet \<Rightarrow>
     (case account_from_key W private_key of
        None \<Rightarrow> None
      | Some account \<Rightarrow>
     (case to_wei_ether W amount_monad of
        None \<Rightarrow> None
      | Some amount_in_wei \<Rightarrow>
     (case getAmountsOut W st amount_in_wei [checksum_weth, checksum_token] of
        None \<Rightarrow> None
      | Some amounts_out \<Rightarrow>
          if amounts_out = [] then None
          else
            (let expected_output = last amounts_out;
                 min_output = min_output_of expected_output slippage;
                 deadline = buy_deadline st
             in
     (case get_transaction_count W st account of
        None \<Rightarrow> None
      | Some nonce \<Rightarrow>
     (case build_transaction W st
             \<lparr> tx_to = DEX_ROUTER_ADDRESS W,
               tx_call = SwapExactETHForTokens min_output [checksum_weth, checksum_token]
                           checksum_wallet deadline,
               tx_sender = account, tx_value = amount_in_wei, tx_nonce = nonce,
               tx_maxFeePerGas = to_wei_gwei (fst (gas_params gas_mode)),
               tx_maxPriorityFeePerGas = to_wei_gwei (snd (gas_params gas_mode)),
               tx_chainId = CHAIN_ID, tx_gas = None \<rparr> of
        None \<Rightarrow> None
      | Some transaction \<Rightarrow> Some (transaction, expected_output, min_output))))))))))"

definition buy_token ::
  "web3_env \<Rightarrow> world \<Rightarrow> string \<Rightarrow> decimal \<Rightarrow> string \<Rightarrow> string \<Rightarrow> pyfloat \<Rightarrow> string \<Rightarrow>
     buy_result option \<times> world" where
  "buy_token W st token_address amount_monad wallet_address private_key slippage gas_mode =
     (case buy_request W st token_address amount_monad wallet_address private_key slippage
             gas_mode of
        None \<Rightarrow> (None, st)
      | Some (transaction, expected_output, min_output) \<Rightarrow>
          (case sign_and_send W st transaction private_key of
             (None, st') \<Rightarrow> (None, st')
           | (Some tx_hash, st') \<Rightarrow>
               (Some \<lparr> br_tx_hash = tx_hash, br_amount_in = amount_monad,
                       br_expected_output = expected_output, br_min_output = min_output \<rparr>,
                st')))"

text \<open>\<open>sell_token\<close>, in its three parts: the statements up to the approval, the approval with
  its pause, and the swap.\<close>

definition sell_amount :: "web3_env \<Rightarrow> string \<Rightarrow> string \<Rightarrow> decimal \<Rightarrow> (string \<times> string \<times> string \<times> int) option" where
  "sell_amount W token_address wallet_address amount_tokens =
     (case to_checksum_address W token_address of
        None \<Rightarrow> None
      | Some checksum_token \<Rightarrow>
     (case to_checksum_address W WETH_ADDRESS of
        None \<Rightarrow> None
      | Some checksum_weth \<Rightarrow>
     (case to_checksum_address W wallet_address of
        None \<Rightarrow> None
      | Some checksum_wallet \<Rightarrow>
     (case to_checksum_address W (DEX_ROUTER_ADDRESS W) of
        None \<Rightarrow> None
      | Some checksum_router \<Rightarrow>
     (case get_token_info (reads W) token_address of
        None \<Rightarrow> None
      | Some info \<Rightarrow>
          Some (checksum_token, checksum_weth, checksum_wallet,
                int_of_decimal (decimal_mul amount_tokens (10 ^ ti_decimals info))))))))"

definition sell_request ::
  "web3_env \<Rightarrow> world \<Rightarrow> string \<Rightarrow> string \<Rightarrow> string \<Rightarrow> int \<Rightarrow> string \<Rightarrow> pyfloat \<Rightarrow> string \<Rightarrow>
     (transaction \<times> int \<times> int) option" where
  "sell_request W st checksum_token checksum_weth checksum_wallet amount_in_wei private_key
     slippage gas_mode =
     (case account_from_key W private_key of
        None \<Rightarrow> None
      | Some account \<Rightarrow>
     (case getAmountsOut W st amount_in_wei [checksum_token, checksum_weth] of
        None \<Rightarrow> None
      | Some amounts_out \<Rightarrow>
          if amounts_out = [] then None
          else
            (let expected_output = last amounts_out;
                 min_output = min_output_of expected_output slippage;
                 deadline = sell_deadline st
             in
     (case get_transaction_count W st account of
        None \<Rightarrow> None
      | Some nonce \<Rightarrow>
     (case build_transaction W st
             \<lparr> tx_to = DEX_ROUTER_ADDRESS W,
               tx_call = SwapExactTokensForETH amount_in_wei min_output
                           [checksum_token, checksum_weth] checksum_wallet deadline,
               tx_sender = account, tx_value = 0, tx_nonce = nonce,
               tx_maxFeePerGas = to_wei_gwei (fst (gas_params gas_mode)),
               tx_maxPriorityFeePerGas = to_wei_gwei (snd (gas_params gas_mode)),
               tx_chainId = CHAIN_ID, tx_gas = None \<rparr> of
        None \<Rightarrow> None
      | Some transaction \<Rightarrow> Some (transaction, expected_output, min_output))))))"

definition sleep :: "pyfloat \<Rightarrow> world \<Rightarrow> world" where
  "sleep seconds st = st \<lparr> now := now st + seconds \<rparr>"

definition sell_token ::
  "web3_env \<Rightarrow> world \<Rightarrow> string \<Rightarrow> decimal \<Rightarrow> string \<Rightarrow> string \<Rightarrow> pyfloat \<Rightarrow> string \<Rightarrow>
     sell_result option \<times> world" where
  "sell_token W st token_address amount_tokens wallet_address private_key slippage gas_mode =
     (case sell_amount W token_address wallet_address amount_tokens of
        None \<Rightarrow> (None, st)
      | Some (checksum_token, checksum_weth, checksum_wallet, amount_in_wei) \<Rightarrow>
          (let (approve_hash, st1) =
                 approve_token W st token_address (DEX_ROUTER_ADDRESS W) (amount_in_wei * 2)
                   private_key gas_mode;
               st2 = (if truthy approve_hash \<and> approve_hash \<noteq> Some ''ALREADY_APPROVED''
                      then sleep 3 st1 else st1)
           in case sell_request W st2 checksum_token checksum_weth checksum_wallet
                     amount_in_wei private_key slippage gas_mode of
                None \<Rightarrow> (None, st2)
              | Some (transaction, expected_output, min_output) \<Rightarrow>
                  (case sign_and_send W st2 transaction private_key of
                     (None, st3) \<Rightarrow> (None, st3)
                   | (Some tx_hash, st3) \<Rightarrow>
                       (Some \<lparr> sr_tx_hash = tx_hash, sr_amount_in = amount_tokens,
                               sr_expected_output = from_wei_ether expected_output,
                               sr_min_output = from_wei_ether min_output,
                               sr_approve_hash =
                                 (if approve_hash \<noteq> Some ''ALREADY_APPROVED''
                                  then approve_hash else None) \<rparr>,
                        st3))))"

section \<open>Portfolio engine (portfolio.py)\<close>

text \<open>An element of \<open>overview['tokens']\<close>, with the keys the allocation reads; \<open>h_value_usd\<close>
  is \<open>None\<close> for a holding without a resolved value.\<close>

record holding =
  h_symbol :: string
  h_balance :: decimal
  h_value_usd :: "pyfloat option"

text \<open>Python's truth value of \<open>t.get('value_usd')\<close>: \<open>None\<close> and \<open>0.0\<close> are false.\<close>

fun truthy_float :: "pyfloat option \<Rightarrow> bool" where
  "truthy_float None = False"
| "truthy_float (Some v) = (v \<noteq> 0)"

definition float_add :: "pyfloat \<Rightarrow> pyfloat \<Rightarrow> pyfloat" where
  "float_add a b = float_round (a + b)"

text \<open>\<open>sum(...)\<close> of floats, added from the left starting at \<open>0\<close>.\<close>

definition sum_floats :: "pyfloat list \<Rightarrow> pyfloat" where
  "sum_floats xs = foldl float_add 0 xs"

text \<open>\<open>sorted(xs, key=key, reverse=True)\<close>: descending, and stable (elements with equal keys
  keep their order).\<close>

definition sorted_reverse :: "('a \<Rightarrow> 'k::linorder) \<Rightarrow> 'a list \<Rightarrow> 'a list" where
  "sorted_reverse key xs = rev (sort_key key (rev xs))"

text \<open>The first statements of \<open>render_portfolio\<close>: the holdings displayed.\<close>

definition tokens_to_display :: "holding list \<Rightarrow> nat \<Rightarrow> holding list" where
  "tokens_to_display tokens max_tokens =
     (if max_tokens < length tokens then take max_tokens tokens else tokens)"

definition tokens_with_price :: "holding list \<Rightarrow> holding list" where
  "tokens_with_price displayed = filter (\<lambda>t. truthy_float (h_value_usd t)) displayed"

definition total_value_usd :: "holding list \<Rightarrow> pyfloat" where
  "total_value_usd displayed =
     sum_floats (map (\<lambda>t. get_or (h_value_usd t) 0) (tokens_with_price displayed))"

definition use_price_allocation :: "holding list \<Rightarrow> bool" where
  "use_price_allocation displayed =
     (3 \<le> length (tokens_with_price displayed) \<and> 0 < total_value_usd displayed)"

text \<open>The outlier detection of the quantity basis, for at least four displayed holdings.\<close>

definition reference_balance :: "holding list \<Rightarrow> pyfloat" where
  "reference_balance displayed =
     float_of_decimal
       (h_balance (sorted_reverse (\<lambda>x. float_of_decimal (h_balance x)) displayed ! 3))"

definition outlier_threshold :: "holding list \<Rightarrow> pyfloat" where
  "outlier_threshold displayed = float_mul (reference_balance displayed) 10"

definition above_threshold :: "holding list \<Rightarrow> holding \<Rightarrow> bool" where
  "above_threshold displayed t = (outlier_threshold displayed < float_of_decimal (h_balance t))"

text \<open>The choice of the allocation basis: the variables \<open>tokens_for_calc\<close>, \<open>outlier_tokens\<close>
  and \<open>allocation_mode\<close> after the \<open>if use_price_allocation\<close> statement.\<close>

record allocation =
  tokens_for_calc :: "holding list"
  outlier_tokens :: "holding list"
  allocation_mode :: string

definition choose_allocation :: "holding list \<Rightarrow> allocation" where
  "choose_allocation displayed =
     (if use_price_allocation displayed then
        \<lparr> tokens_for_calc = tokens_with_price displayed, outlier_tokens = [],
          allocation_mode = ''value'' \<rparr>
      else if 4 \<le> length displayed then
        (let filtered_tokens = filter (\<lambda>t. \<not> above_threshold displayed t) displayed;
             outliers = filter (above_threshold displayed) displayed
         in if length filtered_tokens < 3 then
              \<lparr> tokens_for_calc = displayed, outlier_tokens = [],
                allocation_mode = ''quantity'' \<rparr>
            else
              \<lparr> tokens_for_calc = filtered_tokens, outlier_tokens = outliers,
                allocation_mode = ''quantity'' \<rparr>)
      else
        \<lparr> tokens_for_calc = displayed, outlier_tokens = [],
          allocation_mode = ''quantity'' \<rparr>)"

text \<open>The denominator of the percentages on the quantity basis.\<close>

definition total_count :: "allocation \<Rightarrow> pyfloat" where
  "total_count a = sum_floats (map (\<lambda>t. float_of_decimal (h_balance t)) (tokens_for_calc a))"

section \<open>An environment to run the model on\<close>

text \<open>
  A wallet whose primary helper reports 1.5 MON, two different contracts that both call
  themselves \<open>DUP\<close> (balances 2 and 40) and 2 USDC at an allow-listed address; the chain
  knows the two \<open>DUP\<close> contracts, with raw balances of one token each; the legacy helper has
  no API key.
\<close>

definition example_wallet :: string where
  "example_wallet = ''0x00000000000000000000000000000000000000aa''"

definition dup_one :: string where
  "dup_one = ''0x00000000000000000000000000000000000000d1''"

definition dup_two :: string where
  "dup_two = ''0x00000000000000000000000000000000000000d2''"

definition usdc_address :: string where
  "usdc_address = ''0xf817257fed379853cde0fa4f97ab987181b1e5ea''"

definition example_tokens :: "alchemy_token list" where
  "example_tokens =
     [\<lparr> at_symbol = Some ''DUP'', at_name = Some ''Dup One'', at_balance = Some ''2'',
        at_decimals = Some 18, at_address = Some dup_one \<rparr>,
      \<lparr> at_symbol = Some ''DUP'', at_name = Some ''Dup Two'', at_balance = Some ''40'',
        at_decimals = Some 6, at_address = Some dup_two \<rparr>,
      \<lparr> at_symbol = Some ''USDC'', at_name = Some ''USD Coin'', at_balance = Some ''2'',
        at_decimals = Some 6, at_address = Some usdc_address \<rparr>]"

definition example_env :: chain_env where
  "example_env =
     \<lparr> parse_number = map_of [(''0'', 0), (''1.5'', 3 / 2), (''2'', 2), (''40'', 40)],
       alchemy_helper =
         (\<lambda>w. Some \<lparr> ao_ok = True, ao_native_balance = Some ''1.5'',
                      ao_tokens = example_tokens \<rparr>),
       BLOCKVISION_API_KEY = '''',
       blockvision_helper = (\<lambda>w k. None),
       eth_get_balance = (\<lambda>a. Some 1500000000000000000),
       call_name = map_of [(dup_one, ''Dup One''), (dup_two, ''Dup Two'')],
       call_symbol = map_of [(dup_one, ''DUP''), (dup_two, ''DUP'')],
       call_decimals = map_of [(dup_one, 18), (dup_two, 6)],
       call_balanceOf = (\<lambda>t w. map_of [(dup_one, 1000000000000000000), (dup_two, 1000000)] t),
       alchemy_getAssetTransfers = (\<lambda>w c. None) \<rparr>"

text \<open>Snapshots: user 7 was last seen with 1.5 MON and 1 USDC; no other user has one.\<close>

definition example_snapshots :: snapshots where
  "example_snapshots =
     (\<lambda>u. [])
       (7 := [(''MON'', native_entry (3 / 2) (Some 18)),
              (''USDC'',
               \<lparr> td_symbol = ''USDC'', td_name = ''USD Coin'', td_balance = 1,
                 td_decimals = Some 6, td_address = usdc_address, td_verified = True,
                 td_imageURL = None, td_balance_increase = None, td_tx_hash = None \<rparr>)])"

text \<open>A node for the trading functions. Addresses of 42 characters that start with \<open>0x\<close>
  pass the checksum conversion unchanged; the key \<open>0xkey\<close> belongs to the example wallet;
  every allowance is 5 base units; a quote returns the amount paid in and \<open>quote\<close>; the
  nonce is the number of transactions sent, and is available only when \<open>node_up\<close>; gas
  estimation and submission always succeed.\<close>

definition example_web3 :: "int \<Rightarrow> bool \<Rightarrow> web3_env" where
  "example_web3 quote node_up =
     \<lparr> reads = example_env,
       DEX_ROUTER_ADDRESS = ''0xfb8e1c3b833f9e67a71c859a132cf783b645e436'',
       to_checksum_address = (\<lambda>a. if length a = 42 \<and> startswith a ''0x'' then Some a else None),
       account_from_key = (\<lambda>k. if k = ''0xkey'' then Some example_wallet else None),
       to_wei_ether = (\<lambda>d. if 0 \<le> d then Some \<lfloor>d * 10 ^ 18\<rfloor> else None),
       allowance = (\<lambda>st token owner spender. Some 5),
       get_transaction_count = (\<lambda>st a. if node_up then Some (int (length (sent st))) else None),
       getAmountsOut = (\<lambda>st amount path. Some [amount, quote]),
       build_gas = (\<lambda>st tx. Some 200000),
       send_raw_transaction = (\<lambda>st signed. Some ''0x5e17'') \<rparr>"

definition example_world :: world where
  "example_world = \<lparr> sent = [], now = 3400000000001 / 2000 \<rparr>"

text \<open>Five displayed holdings without resolved values.\<close>

definition example_holdings :: "holding list" where
  "example_holdings =
     [\<lparr> h_symbol = ''AAA'', h_balance = 1000, h_value_usd = None \<rparr>,
      \<lparr> h_symbol = ''BBB'', h_balance = 900, h_value_usd = None \<rparr>,
      \<lparr> h_symbol = ''CCC'', h_balance = 800, h_value_usd = None \<rparr>,
      \<lparr> h_symbol = ''DDD'', h_balance = 10, h_value_usd = None \<rparr>,
      \<lparr> h_symbol = ''EEE'', h_balance = 5, h_value_usd = None \<rparr>]"
section \<open>Properties\<close>

subsection \<open>String helpers\<close>

lemma endswith_iff: "endswith s p \<longleftrightarrow> (\<exists>q. s = q @ p)"
proof
  assume "endswith s p"
  then have "s = take (length s - length p) s @ p"
    by (metis append_take_drop_id endswith_def)
  then show "\<exists>q. s = q @ p" ..
next
  assume "\<exists>q. s = q @ p"
  then show "endswith s p"
    by (auto simp: endswith_def)
qed



lemma verified_addresses_lower_case:
  "\<forall>a \<in> fst ` set VERIFIED_TOKENS. lower a = a"
  by code_simp

subsection \<open>The verified-token predicate\<close>

text \<open>
  Claim C1. \<open>_is_token_verified(token_address, symbol)\<close>, the predicate the primary
  enumeration tier applies to each token with a positive balance, is true exactly when the
  lower-cased address is a key of the allow-list, or the symbol is one of the high-value
  symbols MON, MONAD, WMON, USDC, USDT, WETH, WBTC, or one of the stablecoin tickers USDT,
  USDC, DAI, BUSD, FRAX, R2USD, or ends with \<open>.a\<close>. In particular an allow-listed address
  is verified whatever the symbol, \<open>USDT\<close> and \<open>XYZ.a\<close> are verified whatever the address,
  and \<open>RANDOM\<close> with an address outside the allow-list is not verified.
\<close>

theorem is_token_verified_spec:
  "(is_token_verified token_address symbol \<longleftrightarrow>
      lower token_address \<in> fst ` set VERIFIED_TOKENS
      \<or> symbol \<in> {''MON'', ''MONAD'', ''WMON'', ''USDC'', ''USDT'', ''WETH'', ''WBTC''}
      \<or> symbol \<in> {''USDT'', ''USDC'', ''DAI'', ''BUSD'', ''FRAX'', ''R2USD''}
      \<or> (\<exists>p. symbol = p @ ''.a''))
   \<and> (\<forall>a \<in> fst ` set VERIFIED_TOKENS. \<forall>s. is_token_verified a s)
   \<and> (\<forall>a. is_token_verified a ''USDT'')
   \<and> (\<forall>a. is_token_verified a ''XYZ.a'')
   \<and> (\<forall>a. lower a \<notin> fst ` set VERIFIED_TOKENS \<longrightarrow> \<not> is_token_verified a ''RANDOM'')"
proof -
  have iff: "is_token_verified a s \<longleftrightarrow>
      lower a \<in> fst ` set VERIFIED_TOKENS
      \<or> s \<in> {''MON'', ''MONAD'', ''WMON'', ''USDC'', ''USDT'', ''WETH'', ''WBTC''}
      \<or> s \<in> {''USDT'', ''USDC'', ''DAI'', ''BUSD'', ''FRAX'', ''R2USD''}
      \<or> (\<exists>p. s = p @ ''.a'')" for a s
    unfolding is_token_verified_def dict_contains_def HIGH_VALUE_TOKENS_def stablecoins_def
      endswith_iff
    by auto
  have listed: "is_token_verified a s" if "a \<in> fst ` set VERIFIED_TOKENS" for a s
  proof -
    from that have "lower a = a"
      using verified_addresses_lower_case by (rule bspec [rotated])
    with that show ?thesis
      by (simp add: iff)
  qed
  have usdt: "is_token_verified a ''USDT''" for a
    unfolding is_token_verified_def HIGH_VALUE_TOKENS_def by simp
  have xyz: "is_token_verified a ''XYZ.a''" for a
    unfolding is_token_verified_def endswith_def by simp
  have random: "\<not> is_token_verified a ''RANDOM''" if "lower a \<notin> fst ` set VERIFIED_TOKENS" for a
    using that
    unfolding is_token_verified_def dict_contains_def HIGH_VALUE_TOKENS_def stablecoins_def
      endswith_def
    by simp
  show ?thesis
  proof (intro conjI ballI allI impI)
    show "is_token_verified token_address symbol \<longleftrightarrow>
      lower token_address \<in> fst ` set VERIFIED_TOKENS
      \<or> symbol \<in> {''MON'', ''MONAD'', ''WMON'', ''USDC'', ''USDT'', ''WETH'', ''WBTC''}
      \<or> symbol \<in> {''USDT'', ''USDC'', ''DAI'', ''BUSD'', ''FRAX'', ''R2USD''}
      \<or> (\<exists>p. symbol = p @ ''.a'')"
      by (rule iff)
  next
    fix a s assume "a \<in> fst ` set VERIFIED_TOKENS"
    then show "is_token_verified a s" by (rule listed)
  next
    fix a show "is_token_verified a ''USDT''" by (rule usdt)
  next
    fix a show "is_token_verified a ''XYZ.a''" by (rule xyz)
  next
    fix a assume "lower a \<notin> fst ` set VERIFIED_TOKENS"
    then show "\<not> is_token_verified a ''RANDOM''" by (rule random)
  qed
qed

theorem is_token_verified_spec_witness:
  "is_token_verified ''0x760AFE86E5DE5FA0EE542FC7B7B713E1C5425701'' ''RANDOM''
   \<and> is_token_verified ''0x00000000000000000000000000000000000000aa'' ''USDT''
   \<and> is_token_verified ''0x00000000000000000000000000000000000000aa'' ''XYZ.a''
   \<and> \<not> is_token_verified ''0x00000000000000000000000000000000000000aa'' ''RANDOM''"
proof -
  have a: "lower ''0x760AFE86E5DE5FA0EE542FC7B7B713E1C5425701'' \<in> fst ` set VERIFIED_TOKENS"
    by code_simp
  have b: "lower ''0x00000000000000000000000000000000000000aa'' \<notin> fst ` set VERIFIED_TOKENS"
    by code_simp
  have w1: "is_token_verified ''0x760AFE86E5DE5FA0EE542FC7B7B713E1C5425701'' ''RANDOM''"
    by (rule iffD2 [OF is_token_verified_spec [THEN conjunct1]], rule disjI1, rule a)
  note rest = is_token_verified_spec [THEN conjunct2, THEN conjunct2]
  have w2: "is_token_verified ''0x00000000000000000000000000000000000000aa'' ''USDT''"
    by (rule rest [THEN conjunct1, THEN spec])
  have w3: "is_token_verified ''0x00000000000000000000000000000000000000aa'' ''XYZ.a''"
    by (rule rest [THEN conjunct2, THEN conjunct1, THEN spec])
  have w4: "\<not> is_token_verified ''0x00000000000000000000000000000000000000aa'' ''RANDOM''"
    by (rule rest [THEN conjunct2, THEN conjunct2, THEN spec, THEN mp, OF b])
  show ?thesis
    using w1 w2 w3 w4 by (intro conjI)
qed

subsection \<open>Master-key encryption service\<close>

lemma plain_fernet_sound: "fernet_sound plain_fernet"
  unfolding fernet_sound_def plain_fernet_def startswith_def by simp

text \<open>
  Claim C2, as stated: \<open>decrypt(encrypt(plaintext)) == plaintext\<close> for every non-empty
  plaintext. It fails for a plaintext without the \<open>0x\<close> prefix: \<open>encrypt_private_key\<close>
  encrypts \<open>0xab\<close> for the input \<open>ab\<close>, and decryption returns \<open>0xab\<close>.
\<close>

theorem round_trip_without_prefix_counterexample:
  "fernet_sound plain_fernet \<and> ''ab'' \<noteq> [] \<and>
   encrypt_private_key plain_fernet 0 ''ab'' = Inr ''gAAAAA0xab'' \<and>
   decrypt_private_key plain_fernet ''gAAAAA0xab'' = Inr ''0xab'' \<and>
   decrypt_private_key plain_fernet ''gAAAAA0xab'' \<noteq> Inr ''ab''"
  using plain_fernet_sound
  by (simp add: encrypt_private_key_def encrypt_data_def
      decrypt_private_key_def decrypt_data_def plain_fernet_def startswith_def)

text \<open>
  Claim C2, amended. For every Fernet object that decrypts its own tokens and every
  non-empty plaintext, encryption succeeds and decrypting its result returns the normalised
  plaintext: the plaintext itself when it starts with \<open>0x\<close>, and \<open>0x\<close> followed by the
  plaintext otherwise.
\<close>

theorem decrypt_encrypt_private_key:
  assumes "fernet_sound F" and "private_key \<noteq> []"
  shows "\<exists>c. encrypt_private_key F r private_key = Inr c \<and>
             decrypt_private_key F c =
               Inr (if startswith private_key ''0x'' then private_key else ''0x'' @ private_key)"
proof -
  define normalised where
    "normalised = (if startswith private_key ''0x'' then private_key else ''0x'' @ private_key)"
  define c where "c = fernet_encrypt F r normalised"
  have enc: "encrypt_private_key F r private_key = Inr c"
    using assms(2) by (simp add: encrypt_private_key_def encrypt_data_def c_def normalised_def)
  from assms(1) have "fernet_decrypt F c = Some normalised" and "c \<noteq> []"
    by (simp_all add: fernet_sound_def c_def)
  then have "decrypt_private_key F c = Inr normalised"
    by (simp add: decrypt_private_key_def decrypt_data_def)
  with enc show ?thesis
    unfolding normalised_def by blast
qed

theorem decrypt_encrypt_private_key_witness:
  "encrypt_private_key plain_fernet 0 ''0xab'' = Inr ''gAAAAA0xab'' \<and>
   decrypt_private_key plain_fernet ''gAAAAA0xab'' = Inr ''0xab''"
proof -
  have ne: "''0xab'' \<noteq> []" by simp
  have enc: "encrypt_private_key plain_fernet 0 ''0xab'' = Inr ''gAAAAA0xab''"
    by (simp add: encrypt_private_key_def encrypt_data_def plain_fernet_def startswith_def)
  from decrypt_encrypt_private_key [OF plain_fernet_sound ne, of 0]
  obtain c where "encrypt_private_key plain_fernet 0 ''0xab'' = Inr c"
    and dec: "decrypt_private_key plain_fernet c =
      Inr (if startswith ''0xab'' ''0x'' then ''0xab'' else ''0x'' @ ''0xab'')"
    by blast
  with enc have "c = ''gAAAAA0xab''" by simp
  with dec have "decrypt_private_key plain_fernet ''gAAAAA0xab'' = Inr ''0xab''"
    by (simp add: startswith_def)
  with enc show ?thesis by simp
qed

subsection \<open>Retrieving the decrypted signing key\<close>

text \<open>
  Claim C4. For a stored user whose record holds an encrypted key:
  if the record has a passphrase salt, \<open>get_decrypted_private_key\<close> without a passphrase
  (no argument, or the empty string) raises the \<open>ValueError\<close> "Passphrase required for this
  wallet" (the spec's PassphraseRequired), and with a passphrase it returns what
  \<open>decrypt_with_passphrase\<close> returns for the stored ciphertext and salt, which is
  IncorrectPassphrase for a passphrase whose derived key does not authenticate the
  ciphertext; if the record has no salt, it returns what the master-key decryption
  returns, whatever the passphrase argument. The salt alone selects the path.
\<close>

theorem get_decrypted_private_key_dispatch:
  assumes "get_user db tid = Some u" and "encrypted_private_key u \<noteq> []"
  shows
    "(\<forall>salt. passphrase_salt u = Some salt \<and> salt \<noteq> [] \<longrightarrow>
        get_decrypted_private_key F P db tid None =
          Inl (ValueError ''Passphrase required for this wallet'') \<and>
        get_decrypted_private_key F P db tid (Some []) =
          Inl (ValueError ''Passphrase required for this wallet'') \<and>
        (\<forall>p. p \<noteq> [] \<longrightarrow>
           get_decrypted_private_key F P db tid (Some p) =
             map_sum id Some (decrypt_with_passphrase P (encrypted_private_key u) salt p)) \<and>
        (\<forall>p. p \<noteq> [] \<and>
             authenticated_decrypt P (derive_key P p salt) (encrypted_private_key u) = None \<longrightarrow>
           get_decrypted_private_key F P db tid (Some p) = Inl IncorrectPassphrase))
     \<and> (passphrase_salt u = None \<or> passphrase_salt u = Some [] \<longrightarrow>
          (\<forall>passphrase. get_decrypted_private_key F P db tid passphrase =
             map_sum id Some (decrypt_private_key F (encrypted_private_key u))))"
  using assms
  by (auto simp: get_decrypted_private_key_def decrypt_with_passphrase_def)

theorem get_decrypted_private_key_dispatch_witness:
  "get_decrypted_private_key plain_fernet plain_scheme example_users 7 None =
     Inl (ValueError ''Passphrase required for this wallet'') \<and>
   get_decrypted_private_key plain_fernet plain_scheme example_users 7 (Some ''letmein'') =
     Inl IncorrectPassphrase \<and>
   get_decrypted_private_key plain_fernet plain_scheme example_users 7 (Some ''hunter22'') =
     Inr (Some ''0xabc'') \<and>
   get_decrypted_private_key plain_fernet plain_scheme example_users 8 (Some ''letmein'') =
     Inr (Some ''0xdef'')"
proof -
  let ?u7 = "\<lparr> user_telegram_id = 7,
              user_wallet_address = ''0x00000000000000000000000000000000000000aa'',
              encrypted_private_key = ''hunter22/s4lt:0xabc'',
              passphrase_salt = Some ''s4lt'' \<rparr>"
  let ?u8 = "\<lparr> user_telegram_id = 8,
              user_wallet_address = ''0x00000000000000000000000000000000000000bb'',
              encrypted_private_key = ''gAAAAA0xdef'',
              passphrase_salt = None \<rparr>"
  have u7: "get_user example_users 7 = Some ?u7" and k7: "encrypted_private_key ?u7 \<noteq> []"
    by (simp_all add: get_user_def example_users_def)
  have u8: "get_user example_users 8 = Some ?u8" and k8: "encrypted_private_key ?u8 \<noteq> []"
    by (simp_all add: get_user_def example_users_def)
  note salted = get_decrypted_private_key_dispatch
    [OF u7 k7, of plain_fernet plain_scheme, THEN conjunct1, THEN spec, of "''s4lt''"]
  note unsalted = get_decrypted_private_key_dispatch
    [OF u8 k8, of plain_fernet plain_scheme, THEN conjunct2]
  have w1: "get_decrypted_private_key plain_fernet plain_scheme example_users 7 None =
      Inl (ValueError ''Passphrase required for this wallet'')"
    using salted by simp
  have wrong: "''letmein'' \<noteq> [] \<and>
      authenticated_decrypt plain_scheme (derive_key plain_scheme ''letmein'' ''s4lt'')
        (encrypted_private_key ?u7) = None"
    by (simp add: plain_scheme_def startswith_def)
  have w2: "get_decrypted_private_key plain_fernet plain_scheme example_users 7
      (Some ''letmein'') = Inl IncorrectPassphrase"
    using salted wrong by (simp add: decrypt_with_passphrase_def)
  have "get_decrypted_private_key plain_fernet plain_scheme example_users 7 (Some ''hunter22'') =
      map_sum id Some
        (decrypt_with_passphrase plain_scheme (encrypted_private_key ?u7) ''s4lt'' ''hunter22'')"
    using salted by simp
  then have w3: "get_decrypted_private_key plain_fernet plain_scheme example_users 7
      (Some ''hunter22'') = Inr (Some ''0xabc'')"
    by (simp add: decrypt_with_passphrase_def plain_scheme_def startswith_def)
  have "get_decrypted_private_key plain_fernet plain_scheme example_users 8 (Some ''letmein'') =
      map_sum id Some (decrypt_private_key plain_fernet (encrypted_private_key ?u8))"
    using unsalted by simp
  then have w4: "get_decrypted_private_key plain_fernet plain_scheme example_users 8
      (Some ''letmein'') = Inr (Some ''0xdef'')"
    by (simp add: decrypt_private_key_def decrypt_data_def plain_fernet_def startswith_def)
  from w1 w2 w3 w4 show ?thesis by simp
qed

subsection \<open>Holdings dictionaries\<close>

text \<open>A holdings dictionary is well keyed when no symbol occurs twice among its keys and
  every value carries its key as its symbol. Assignments keep it so.\<close>

lemma update_well_keyed:
  assumes "distinct (map fst h)" and "\<forall>k' td'. (k', td') \<in> set h \<longrightarrow> td_symbol td' = k'"
    and "td_symbol td = k"
  shows "distinct (map fst (AList.update k td h)) \<and>
         (\<forall>k' td'. (k', td') \<in> set (AList.update k td h) \<longrightarrow> td_symbol td' = k')"
proof (intro conjI allI impI)
  show d: "distinct (map fst (AList.update k td h))"
    using assms(1) by (rule distinct_update)
  fix k' td' assume "(k', td') \<in> set (AList.update k td h)"
  with d have "map_of (AList.update k td h) k' = Some td'"
    by simp
  then have "((map_of h)(k \<mapsto> td)) k' = Some td'"
    by (simp only: update_conv')
  then have "(k' = k \<and> td' = td) \<or> map_of h k' = Some td'"
    by (auto split: if_splits)
  then show "td_symbol td' = k'"
    using assms(2,3) by (auto dest: map_of_SomeD)
qed

lemma alchemy_token_step_symbol:
  "alchemy_token_step env t = Some (Some (k, td)) \<Longrightarrow> td_symbol td = k"
  by (auto simp: alchemy_token_step_def Let_def split: option.splits if_splits)

lemma blockvision_token_step_symbol:
  "blockvision_token_step env t = Some (k, td) \<Longrightarrow> td_symbol td = k"
  by (auto simp: blockvision_token_step_def Let_def split: option.splits if_splits)

lemma history_token_step_symbol:
  "history_token_step env w a = Some (k, td) \<Longrightarrow> td_symbol td = k"
  by (auto simp: history_token_step_def Let_def split: option.splits if_splits)

lemma alchemy_tokens_well_keyed:
  assumes "alchemy_tokens env ts b = Some r"
    and "distinct (map fst b)" and "\<forall>k td. (k, td) \<in> set b \<longrightarrow> td_symbol td = k"
  shows "distinct (map fst r) \<and> (\<forall>k td. (k, td) \<in> set r \<longrightarrow> td_symbol td = k)"
  using assms
proof (induction ts arbitrary: b)
  case Nil
  then show ?case by simp
next
  case (Cons t ts)
  show ?case
  proof (cases "alchemy_token_step env t")
    case None
    with Cons.prems(1) show ?thesis by simp
  next
    case (Some w)
    show ?thesis
    proof (cases w)
      case None
      with Some Cons.prems have "alchemy_tokens env ts b = Some r" by simp
      then show ?thesis using Cons.prems(2,3) by (rule Cons.IH)
    next
      case inner: (Some kv)
      obtain k td where kv: "kv = (k, td)" by (cases kv)
      from Some inner kv have step: "alchemy_token_step env t = Some (Some (k, td))" by simp
      then have sym: "td_symbol td = k" by (rule alchemy_token_step_symbol)
      from step Cons.prems(1) have run: "alchemy_tokens env ts (AList.update k td b) = Some r"
        by simp
      from update_well_keyed [OF Cons.prems(2,3) sym]
      show ?thesis using Cons.IH [OF run] by blast
    qed
  qed
qed

lemma blockvision_tokens_well_keyed:
  assumes "distinct (map fst b)" and "\<forall>k td. (k, td) \<in> set b \<longrightarrow> td_symbol td = k"
  shows "distinct (map fst (blockvision_tokens env ts b)) \<and>
         (\<forall>k td. (k, td) \<in> set (blockvision_tokens env ts b) \<longrightarrow> td_symbol td = k)"
  using assms
proof (induction ts arbitrary: b)
  case Nil
  then show ?case by simp
next
  case (Cons t ts)
  show ?case
  proof (cases "blockvision_token_step env t")
    case None
    then show ?thesis using Cons.IH [OF Cons.prems] by simp
  next
    case (Some kv)
    obtain k td where kv: "kv = (k, td)" by (cases kv)
    with Some have step: "blockvision_token_step env t = Some (k, td)" by simp
    then have sym: "td_symbol td = k" by (rule blockvision_token_step_symbol)
    from update_well_keyed [OF Cons.prems sym]
    have "distinct (map fst (blockvision_tokens env ts (AList.update k td b))) \<and>
      (\<forall>k' td'. (k', td') \<in> set (blockvision_tokens env ts (AList.update k td b)) \<longrightarrow>
         td_symbol td' = k')"
      using Cons.IH by blast
    with step show ?thesis by simp
  qed
qed

lemma history_tokens_well_keyed:
  assumes "distinct (map fst b)" and "\<forall>k td. (k, td) \<in> set b \<longrightarrow> td_symbol td = k"
  shows "distinct (map fst (history_tokens env w as b)) \<and>
         (\<forall>k td. (k, td) \<in> set (history_tokens env w as b) \<longrightarrow> td_symbol td = k)"
  using assms
proof (induction as arbitrary: b)
  case Nil
  then show ?case by simp
next
  case (Cons a as)
  show ?case
  proof (cases "history_token_step env w a")
    case None
    then show ?thesis using Cons.IH [OF Cons.prems] by simp
  next
    case (Some kv)
    obtain k td where kv: "kv = (k, td)" by (cases kv)
    with Some have step: "history_token_step env w a = Some (k, td)" by simp
    then have sym: "td_symbol td = k" by (rule history_token_step_symbol)
    from update_well_keyed [OF Cons.prems sym]
    have "distinct (map fst (history_tokens env w as (AList.update k td b))) \<and>
      (\<forall>k' td'. (k', td') \<in> set (history_tokens env w as (AList.update k td b)) \<longrightarrow>
         td_symbol td' = k')"
      using Cons.IH by blast
    with step show ?thesis by simp
  qed
qed

lemma native_start_well_keyed:
  "distinct (map fst (if c then AList.update ''MON'' (native_entry nb d) [] else [])) \<and>
   (\<forall>k td. (k, td) \<in> set (if c then AList.update ''MON'' (native_entry nb d) [] else []) \<longrightarrow>
      td_symbol td = k)"
  by (simp add: native_entry_def)

lemma alchemy_tier_well_keyed:
  assumes "alchemy_tier env w = Some r"
  shows "distinct (map fst r) \<and> (\<forall>k td. (k, td) \<in> set r \<longrightarrow> td_symbol td = k)"
proof -
  define ts where "ts = ao_tokens (the (alchemy_helper env w))"
  from assms have "alchemy_tokens env ts [] = Some r \<or>
      (\<exists>nb. alchemy_tokens env ts [(''MON'', native_entry nb (Some 18))] = Some r)"
    unfolding ts_def
    by (auto simp: alchemy_tier_def Let_def split: option.splits if_splits)
  then obtain b where run: "alchemy_tokens env ts b = Some r"
    and b: "b = [] \<or> (\<exists>nb. b = [(''MON'', native_entry nb (Some 18))])"
    by blast
  from b have "distinct (map fst b) \<and> (\<forall>k td. (k, td) \<in> set b \<longrightarrow> td_symbol td = k)"
    by (auto simp: native_entry_def)
  then show ?thesis
    using alchemy_tokens_well_keyed [OF run] by blast
qed

lemma get_wallet_all_tokens_well_keyed:
  "distinct (map fst (get_wallet_all_tokens env w)) \<and>
   (\<forall>k td. (k, td) \<in> set (get_wallet_all_tokens env w) \<longrightarrow> td_symbol td = k)"
proof (cases "alchemy_tier env w")
  case (Some r)
  then have "get_wallet_all_tokens env w = r"
    by (simp add: get_wallet_all_tokens_def)
  with alchemy_tier_well_keyed [OF Some] show ?thesis by simp
next
  case None
  show ?thesis
  proof (cases "blockvision_tier env w")
    case (Some r)
    with None have eq: "get_wallet_all_tokens env w = r"
      by (simp add: get_wallet_all_tokens_def)
    from Some obtain ts where "r = blockvision_tokens env ts []"
      by (auto simp: blockvision_tier_def Let_def split: option.splits if_splits)
    with blockvision_tokens_well_keyed [of "[]" env ts] eq show ?thesis by simp
  next
    case none2: None
    with None have "get_wallet_all_tokens env w = native_tier env w"
      by (simp add: get_wallet_all_tokens_def)
    then show ?thesis
      using native_start_well_keyed [of "get_native_balance env w \<noteq> 0" "get_native_balance env w" "Some 18"]
      by (simp add: native_tier_def Let_def)
  qed
qed

lemma get_tokens_from_history_well_keyed:
  "distinct (map fst (get_tokens_from_history env w as)) \<and>
   (\<forall>k td. (k, td) \<in> set (get_tokens_from_history env w as) \<longrightarrow> td_symbol td = k)"
  unfolding get_tokens_from_history_def Let_def
  using native_start_well_keyed [of "get_native_balance env w \<noteq> 0" "get_native_balance env w" None]
  by (intro history_tokens_well_keyed) blast+

text \<open>The loops, split at a position of the enumeration.\<close>

lemma alchemy_tokens_append:
  "alchemy_tokens env (xs @ ys) b =
     (case alchemy_tokens env xs b of None \<Rightarrow> None | Some b' \<Rightarrow> alchemy_tokens env ys b')"
  by (induction xs arbitrary: b) (auto split: option.splits)

lemma history_tokens_append:
  "history_tokens env w (xs @ ys) b = history_tokens env w ys (history_tokens env w xs b)"
  by (induction xs arbitrary: b) (auto split: option.splits)

text \<open>Iterations that do not assign to a symbol leave its entry as it is.\<close>

lemma alchemy_tokens_other_symbols:
  assumes "alchemy_tokens env ys b = Some r"
    and "\<forall>u \<in> set ys. \<forall>td'. alchemy_token_step env u \<noteq> Some (Some (s, td'))"
  shows "map_of r s = map_of b s"
  using assms
proof (induction ys arbitrary: b)
  case Nil
  then show ?case by simp
next
  case (Cons u ys)
  from Cons.prems(2) have rest: "\<forall>u \<in> set ys. \<forall>td'. alchemy_token_step env u \<noteq> Some (Some (s, td'))"
    and here: "\<forall>td'. alchemy_token_step env u \<noteq> Some (Some (s, td'))"
    by simp_all
  show ?case
  proof (cases "alchemy_token_step env u")
    case None
    with Cons.prems(1) show ?thesis by simp
  next
    case (Some w)
    show ?thesis
    proof (cases w)
      case None
      with Some Cons.prems(1) have "alchemy_tokens env ys b = Some r" by simp
      then show ?thesis using rest by (rule Cons.IH)
    next
      case inner: (Some kv)
      obtain k td where kv: "kv = (k, td)" by (cases kv)
      from Some inner kv have step: "alchemy_token_step env u = Some (Some (k, td))" by simp
      with here have "k \<noteq> s" by auto
      from step Cons.prems(1) have "alchemy_tokens env ys (AList.update k td b) = Some r"
        by simp
      then have "map_of r s = map_of (AList.update k td b) s"
        using rest by (rule Cons.IH)
      with \<open>k \<noteq> s\<close> show ?thesis by (simp add: update_conv')
    qed
  qed
qed

lemma history_tokens_other_symbols:
  assumes "\<forall>a \<in> set ys. \<forall>td'. history_token_step env w a \<noteq> Some (s, td')"
  shows "map_of (history_tokens env w ys b) s = map_of b s"
  using assms
proof (induction ys arbitrary: b)
  case Nil
  then show ?case by simp
next
  case (Cons a ys)
  from Cons.prems have rest: "\<forall>a \<in> set ys. \<forall>td'. history_token_step env w a \<noteq> Some (s, td')"
    and here: "\<forall>td'. history_token_step env w a \<noteq> Some (s, td')"
    by simp_all
  show ?case
  proof (cases "history_token_step env w a")
    case None
    then show ?thesis using Cons.IH [OF rest] by simp
  next
    case (Some kv)
    obtain k td where kv: "kv = (k, td)" by (cases kv)
    with Some have step: "history_token_step env w a = Some (k, td)" by simp
    with here have "k \<noteq> s" by auto
    have "map_of (history_tokens env w ys (AList.update k td b)) s =
        map_of (AList.update k td b) s"
      using rest by (rule Cons.IH)
    with \<open>k \<noteq> s\<close> step show ?thesis by (simp add: update_conv')
  qed
qed

text \<open>The last assignment to a symbol is the entry of the result.\<close>

lemma alchemy_tokens_last_assignment:
  assumes "alchemy_tokens env (xs @ t # ys) b = Some r"
    and "alchemy_token_step env t = Some (Some (s, td))"
    and "\<forall>u \<in> set ys. \<forall>td'. alchemy_token_step env u \<noteq> Some (Some (s, td'))"
  shows "map_of r s = Some td"
proof -
  from assms(1) obtain b' where "alchemy_tokens env xs b = Some b'"
    and "alchemy_tokens env (t # ys) b' = Some r"
    by (auto simp: alchemy_tokens_append split: option.splits)
  with assms(2) have "alchemy_tokens env ys (AList.update s td b') = Some r"
    by simp
  then have "map_of r s = map_of (AList.update s td b') s"
    using assms(3) by (rule alchemy_tokens_other_symbols)
  then show ?thesis by (simp add: update_conv')
qed

lemma history_tokens_last_assignment:
  assumes "history_token_step env w a = Some (s, td)"
    and "\<forall>a' \<in> set ys. \<forall>td'. history_token_step env w a' \<noteq> Some (s, td')"
  shows "map_of (history_tokens env w (xs @ a # ys) b) s = Some td"
proof -
  have "history_tokens env w (xs @ a # ys) b =
      history_tokens env w ys (AList.update s td (history_tokens env w xs b))"
    using assms(1) by (simp add: history_tokens_append)
  then show ?thesis
    using history_tokens_other_symbols [OF assms(2)] by (simp add: update_conv')
qed

subsection \<open>Holdings are keyed by symbol\<close>

lemma alchemy_tier_run:
  assumes "alchemy_tier env w = Some r" and "alchemy_helper env w = Some data"
  shows "\<exists>b. alchemy_tokens env (ao_tokens data) b = Some r"
  using assms by (auto simp: alchemy_tier_def Let_def split: option.splits if_splits)

text \<open>
  Claim C10. The dictionaries returned by \<open>get_wallet_all_tokens\<close> and
  \<open>get_tokens_from_history\<close> are keyed by symbol: no symbol occurs twice among the keys, and
  every value carries its key as its symbol. When several tokens of the enumeration share
  a symbol, the entry is the one written by the last of them: in the primary tier (when it
  returns) for the helper's token list, and in the history check for the list of
  addresses; the tokens written before it under the same symbol are gone from the result.
\<close>

theorem holdings_keyed_by_symbol:
  "distinct (map fst (get_wallet_all_tokens env wallet)) \<and>
   distinct (map fst (get_tokens_from_history env wallet addresses)) \<and>
   (\<forall>k td. (k, td) \<in> set (get_wallet_all_tokens env wallet) \<longrightarrow> td_symbol td = k) \<and>
   (\<forall>k td. (k, td) \<in> set (get_tokens_from_history env wallet addresses) \<longrightarrow>
      td_symbol td = k) \<and>
   (\<forall>data xs t ys s td.
      alchemy_helper env wallet = Some data \<and> alchemy_tier env wallet \<noteq> None \<and>
      ao_tokens data = xs @ t # ys \<and>
      alchemy_token_step env t = Some (Some (s, td)) \<and>
      (\<forall>u \<in> set ys. \<forall>td'. alchemy_token_step env u \<noteq> Some (Some (s, td')))
      \<longrightarrow> map_of (get_wallet_all_tokens env wallet) s = Some td) \<and>
   (\<forall>xs a ys s td.
      addresses = xs @ a # ys \<and>
      history_token_step env wallet a = Some (s, td) \<and>
      (\<forall>a' \<in> set ys. \<forall>td'. history_token_step env wallet a' \<noteq> Some (s, td'))
      \<longrightarrow> map_of (get_tokens_from_history env wallet addresses) s = Some td)"
proof -
  have primary: "map_of (get_wallet_all_tokens env wallet) s = Some td"
    if "alchemy_helper env wallet = Some data" and "alchemy_tier env wallet \<noteq> None"
      and "ao_tokens data = xs @ t # ys"
      and "alchemy_token_step env t = Some (Some (s, td))"
      and "\<forall>u \<in> set ys. \<forall>td'. alchemy_token_step env u \<noteq> Some (Some (s, td'))"
    for data xs t ys s td
  proof -
    from that(2) obtain r where r: "alchemy_tier env wallet = Some r" by blast
    then have eq: "get_wallet_all_tokens env wallet = r"
      by (simp add: get_wallet_all_tokens_def)
    from alchemy_tier_run [OF r that(1)] that(3)
    obtain b where "alchemy_tokens env (xs @ t # ys) b = Some r" by auto
    then have "map_of r s = Some td"
      using that(4,5) by (rule alchemy_tokens_last_assignment)
    with eq show ?thesis by simp
  qed
  have history: "map_of (get_tokens_from_history env wallet addresses) s = Some td"
    if "addresses = xs @ a # ys"
      and "history_token_step env wallet a = Some (s, td)"
      and "\<forall>a' \<in> set ys. \<forall>td'. history_token_step env wallet a' \<noteq> Some (s, td')"
    for xs a ys s td
    unfolding get_tokens_from_history_def Let_def that(1)
    using that(2,3) by (rule history_tokens_last_assignment)
  show ?thesis
    using get_wallet_all_tokens_well_keyed [of env wallet]
      get_tokens_from_history_well_keyed [of env wallet addresses] primary history
    by blast
qed

lemma example_tier: "alchemy_tier example_env example_wallet \<noteq> None"
  by code_simp

lemma example_step_dup_two:
  "alchemy_token_step example_env (example_tokens ! 1) =
     Some (Some (''DUP'',
       \<lparr> td_symbol = ''DUP'', td_name = ''Dup Two'', td_balance = 40, td_decimals = Some 6,
         td_address = dup_two, td_verified = False, td_imageURL = None,
         td_balance_increase = None, td_tx_hash = None \<rparr>))"
  by code_simp

lemma example_step_usdc:
  "alchemy_token_step example_env (example_tokens ! 2) =
     Some (Some (''USDC'',
       \<lparr> td_symbol = ''USDC'', td_name = ''USD Coin'', td_balance = 2, td_decimals = Some 6,
         td_address = usdc_address, td_verified = True, td_imageURL = None,
         td_balance_increase = None, td_tx_hash = None \<rparr>))"
  by code_simp

lemma example_history_dup_two:
  "history_token_step example_env example_wallet dup_two =
     Some (''DUP'',
       \<lparr> td_symbol = ''DUP'', td_name = ''Dup Two'', td_balance = 1, td_decimals = Some 6,
         td_address = dup_two, td_verified = True, td_imageURL = None,
         td_balance_increase = None, td_tx_hash = None \<rparr>)"
  by code_simp

theorem holdings_keyed_by_symbol_witness:
  "map_of (get_wallet_all_tokens example_env example_wallet) ''DUP'' =
     Some \<lparr> td_symbol = ''DUP'', td_name = ''Dup Two'', td_balance = 40, td_decimals = Some 6,
            td_address = dup_two, td_verified = False, td_imageURL = None,
            td_balance_increase = None, td_tx_hash = None \<rparr> \<and>
   map_of (get_tokens_from_history example_env example_wallet [dup_one, dup_two]) ''DUP'' =
     Some \<lparr> td_symbol = ''DUP'', td_name = ''Dup Two'', td_balance = 1, td_decimals = Some 6,
            td_address = dup_two, td_verified = True, td_imageURL = None,
            td_balance_increase = None, td_tx_hash = None \<rparr> \<and>
   distinct (map fst (get_wallet_all_tokens example_env example_wallet))"
proof -
  note keyed = holdings_keyed_by_symbol [of example_env example_wallet "[dup_one, dup_two]"]
  have helper: "alchemy_helper example_env example_wallet =
      Some \<lparr> ao_ok = True, ao_native_balance = Some ''1.5'', ao_tokens = example_tokens \<rparr>"
    by (simp add: example_env_def)
  have split: "ao_tokens \<lparr> ao_ok = True, ao_native_balance = Some ''1.5'',
      ao_tokens = example_tokens \<rparr> = [example_tokens ! 0] @ example_tokens ! 1 # [example_tokens ! 2]"
    by (simp add: example_tokens_def)
  have later: "\<forall>u \<in> set [example_tokens ! 2]. \<forall>td'.
      alchemy_token_step example_env u \<noteq> Some (Some (''DUP'', td'))"
    by (simp add: example_step_usdc)
  have w1: "map_of (get_wallet_all_tokens example_env example_wallet) ''DUP'' =
     Some \<lparr> td_symbol = ''DUP'', td_name = ''Dup Two'', td_balance = 40, td_decimals = Some 6,
            td_address = dup_two, td_verified = False, td_imageURL = None,
            td_balance_increase = None, td_tx_hash = None \<rparr>"
    using keyed helper example_tier split example_step_dup_two later by blast
  have split2: "[dup_one, dup_two] = [dup_one] @ dup_two # []" by simp
  have later2: "\<forall>a' \<in> set []. \<forall>td'.
      history_token_step example_env example_wallet a' \<noteq> Some (''DUP'', td')"
    by simp
  have w2: "map_of (get_tokens_from_history example_env example_wallet [dup_one, dup_two]) ''DUP'' =
     Some \<lparr> td_symbol = ''DUP'', td_name = ''Dup Two'', td_balance = 1, td_decimals = Some 6,
            td_address = dup_two, td_verified = True, td_imageURL = None,
            td_balance_increase = None, td_tx_hash = None \<rparr>"
    using keyed split2 example_history_dup_two later2 by blast
  from keyed have w3: "distinct (map fst (get_wallet_all_tokens example_env example_wallet))"
    by (rule conjunct1)
  from w1 w2 w3 show ?thesis by (intro conjI)
qed

subsection \<open>Notification monitor\<close>

text \<open>
  Claim C8. When the user has no prior snapshot, a check emits no notification, whatever
  the current holdings are, and afterwards the user's snapshot is the current holdings;
  the snapshots of other users are untouched.
\<close>

theorem first_run_suppression:
  assumes "get_token_snapshot db telegram_id = []"
  shows "snd (check_user_for_new_tokens env db telegram_id wallet) = [] \<and>
         get_token_snapshot (fst (check_user_for_new_tokens env db telegram_id wallet)) telegram_id =
           get_wallet_all_tokens env wallet \<and>
         (\<forall>other. other \<noteq> telegram_id \<longrightarrow>
            get_token_snapshot (fst (check_user_for_new_tokens env db telegram_id wallet)) other =
              get_token_snapshot db other)"
proof (cases "get_wallet_all_tokens env wallet = []")
  case True
  then have "check_user_for_new_tokens env db telegram_id wallet = (db, [])"
    by (simp add: check_user_for_new_tokens_def)
  with True assms show ?thesis by simp
next
  case False
  with assms have "check_user_for_new_tokens env db telegram_id wallet =
      (update_token_snapshot db telegram_id (get_wallet_all_tokens env wallet), [])"
    by (simp add: check_user_for_new_tokens_def Let_def)
  then show ?thesis
    by (simp add: get_token_snapshot_def update_token_snapshot_def)
qed

lemma example_holdings_not_empty: "get_wallet_all_tokens example_env example_wallet \<noteq> []"
  by code_simp

theorem first_run_suppression_witness:
  "get_token_snapshot example_snapshots 8 = [] \<and>
   get_wallet_all_tokens example_env example_wallet \<noteq> [] \<and>
   snd (check_user_for_new_tokens example_env example_snapshots 8 example_wallet) = [] \<and>
   get_token_snapshot
     (fst (check_user_for_new_tokens example_env example_snapshots 8 example_wallet)) 8 =
     get_wallet_all_tokens example_env example_wallet"
proof -
  have none: "get_token_snapshot example_snapshots 8 = []"
    by (simp add: get_token_snapshot_def example_snapshots_def)
  from first_run_suppression [OF none, of example_env example_wallet]
  show ?thesis using none example_holdings_not_empty by simp
qed

text \<open>The queue of a check is the concatenation of what the iterations append.\<close>

lemma compare_tokens_queue:
  "snd (compare_tokens env w last_snapshot current acc) =
     acc @ concat (map (\<lambda>(k, td). snd (check_token env w last_snapshot k td)) current)"
proof (induction current arbitrary: acc)
  case Nil
  show ?case by simp
next
  case (Cons entry current)
  obtain k td where entry: "entry = (k, td)" by (cases entry)
  show ?case
    using Cons.IH [of "acc @ snd (check_token env w last_snapshot k td)"]
    by (simp add: entry split_beta Let_def)
qed

lemma check_increase_queue:
  assumes "n \<in> set (snd (check_increase env w category old td))"
  shows "n = td \<lparr> td_balance_increase := td_balance_increase n, td_tx_hash := td_tx_hash n \<rparr>"
  using assms
  by (auto simp: check_increase_def Let_def split: if_splits option.splits)

lemma check_token_queue:
  assumes "n \<in> set (snd (check_token env w last_snapshot k td))"
  shows "(k \<in> {''MON'', ''MONAD''} \<or> td_verified td) \<and>
         n = td \<lparr> td_balance_increase := td_balance_increase n, td_tx_hash := td_tx_hash n \<rparr>"
proof -
  from assms have "n = td \<or> (\<exists>category old. n \<in> set (snd (check_increase env w category old td)))"
    by (auto simp: check_token_def Let_def split: if_splits option.splits)
  then have "n = td \<lparr> td_balance_increase := td_balance_increase n,
      td_tx_hash := td_tx_hash n \<rparr>"
    using check_increase_queue by auto
  moreover from assms have "k \<in> {''MON'', ''MONAD''} \<or> td_verified td"
    by (auto simp: check_token_def Let_def split: if_splits)
  ultimately show ?thesis by simp
qed

text \<open>
  Claim C9. A holding whose symbol is not that of the native currency (\<open>MON\<close>, \<open>MONAD\<close>)
  and whose verified flag is false is skipped by its iteration, whatever the snapshot
  holds for it (new with a positive balance, or known with a smaller one): the iteration
  queues nothing and leaves the entry as it is. Hence every notification of a check comes
  from a current holding that has a native symbol or is verified (it is that holding, with
  the increase and the transaction hash filled in).
\<close>

theorem unverified_never_notified:
  "(symbol \<notin> {''MON'', ''MONAD''} \<and> \<not> td_verified token_data \<longrightarrow>
      check_token env wallet last_snapshot symbol token_data = (token_data, [])) \<and>
   (\<forall>n \<in> set (snd (check_user_for_new_tokens env db telegram_id wallet)).
      \<exists>(k, td) \<in> set (get_wallet_all_tokens env wallet).
        (k \<in> {''MON'', ''MONAD''} \<or> td_verified td) \<and>
        n = td \<lparr> td_balance_increase := td_balance_increase n, td_tx_hash := td_tx_hash n \<rparr>)"
proof (intro conjI impI ballI)
  assume "symbol \<notin> {''MON'', ''MONAD''} \<and> \<not> td_verified token_data"
  then show "check_token env wallet last_snapshot symbol token_data = (token_data, [])"
    by (simp add: check_token_def Let_def)
next
  fix n
  assume n: "n \<in> set (snd (check_user_for_new_tokens env db telegram_id wallet))"
  define current where "current = get_wallet_all_tokens env wallet"
  define last_snapshot where "last_snapshot = get_token_snapshot db telegram_id"
  from n have "n \<in> set (snd (compare_tokens env wallet last_snapshot current []))"
    unfolding check_user_for_new_tokens_def Let_def current_def last_snapshot_def
    by (auto simp: split_beta split: if_splits)
  then obtain k td where "(k, td) \<in> set current"
    and "n \<in> set (snd (check_token env wallet last_snapshot k td))"
    by (auto simp: compare_tokens_queue)
  with check_token_queue [of n env wallet last_snapshot k td]
  show "\<exists>(k, td) \<in> set (get_wallet_all_tokens env wallet).
        (k \<in> {''MON'', ''MONAD''} \<or> td_verified td) \<and>
        n = td \<lparr> td_balance_increase := td_balance_increase n, td_tx_hash := td_tx_hash n \<rparr>"
    unfolding current_def by blast
qed

lemma example_check_queue:
  "map td_symbol (snd (check_user_for_new_tokens example_env example_snapshots 7 example_wallet)) =
     [''USDC'']"
  by code_simp

theorem unverified_never_notified_witness:
  "check_token example_env example_wallet (get_token_snapshot example_snapshots 7) ''DUP''
     \<lparr> td_symbol = ''DUP'', td_name = ''Dup Two'', td_balance = 40, td_decimals = Some 6,
       td_address = dup_two, td_verified = False, td_imageURL = None,
       td_balance_increase = None, td_tx_hash = None \<rparr> =
     (\<lparr> td_symbol = ''DUP'', td_name = ''Dup Two'', td_balance = 40, td_decimals = Some 6,
        td_address = dup_two, td_verified = False, td_imageURL = None,
        td_balance_increase = None, td_tx_hash = None \<rparr>, []) \<and>
   map_of (get_wallet_all_tokens example_env example_wallet) ''DUP'' =
     Some \<lparr> td_symbol = ''DUP'', td_name = ''Dup Two'', td_balance = 40, td_decimals = Some 6,
            td_address = dup_two, td_verified = False, td_imageURL = None,
            td_balance_increase = None, td_tx_hash = None \<rparr> \<and>
   map td_symbol (snd (check_user_for_new_tokens example_env example_snapshots 7 example_wallet)) =
     [''USDC'']"
proof -
  let ?dup = "\<lparr> td_symbol = ''DUP'', td_name = ''Dup Two'', td_balance = 40, td_decimals = Some 6,
       td_address = dup_two, td_verified = False, td_imageURL = None,
       td_balance_increase = None, td_tx_hash = None \<rparr>"
  have hyp: "''DUP'' \<notin> {''MON'', ''MONAD''} \<and> \<not> td_verified ?dup" by simp
  have w1: "check_token example_env example_wallet (get_token_snapshot example_snapshots 7)
      ''DUP'' ?dup = (?dup, [])"
    by (rule unverified_never_notified [THEN conjunct1, THEN mp, OF hyp])
  have w2: "map_of (get_wallet_all_tokens example_env example_wallet) ''DUP'' = Some ?dup"
    by code_simp
  from w1 w2 example_check_queue show ?thesis by (intro conjI)
qed

subsection \<open>Trading\<close>

lemma int_of_float_gt: "x - 1 < of_int (int_of_float x)"
  unfolding int_of_float_def by (simp; linarith)

lemma approve_token_state:
  assumes "approve_token W st token_address spender_address amount private_key gas_mode = (r, st1)"
  shows "now st1 = now st \<and>
         (sent st1 = sent st \<or> (\<exists>transaction. sent st1 = sent st @ [(transaction, private_key)]))"
  using assms
  by (auto simp: approve_token_def sign_and_send_def split: option.splits)

text \<open>
  Claim C5, as stated: whenever the allowance is below the requested amount,
  \<open>approve_token\<close> submits one approval and returns its hash. It fails when a call to the
  node raises after the allowance was read: with an allowance of 5, a requested amount of
  10 and a node that does not answer the nonce query, the function returns \<open>None\<close> and has
  submitted nothing.
\<close>

theorem approve_token_node_failure_counterexample:
  "allowance (example_web3 1000 False) example_world dup_one example_wallet
     ''0xfb8e1c3b833f9e67a71c859a132cf783b645e436'' = Some 5 \<and>
   (5 :: int) < 10 \<and>
   approve_token (example_web3 1000 False) example_world dup_one
     ''0xfb8e1c3b833f9e67a71c859a132cf783b645e436'' 10 ''0xkey'' ''normal'' =
     (None, example_world)"
  by code_simp

text \<open>
  Claim C5, amended. Let the addresses and the key be valid and the allowance be read.
  If the allowance is at least the requested amount, \<open>approve_token\<close> returns the sentinel
  \<open>ALREADY_APPROVED\<close> and leaves the state as it is: nothing is submitted. Otherwise, if
  the nonce is read, the \<open>approve\<close> transaction is built and the node accepts it, the
  function submits exactly that transaction, signed with the key, and returns its hash;
  if the nonce read or the build raises, it returns \<open>None\<close> and submits nothing. In every
  case at most one transaction is submitted, and it is the approval of the amount to the
  spender.
\<close>

theorem approve_token_dispatch:
  assumes "to_checksum_address W token_address = Some checksum_token"
    and "to_checksum_address W spender_address = Some checksum_spender"
    and "account_from_key W private_key = Some account"
    and "allowance W st checksum_token account checksum_spender = Some current_allowance"
  shows
    "(amount \<le> current_allowance \<longrightarrow>
        approve_token W st token_address spender_address amount private_key gas_mode =
          (Some ''ALREADY_APPROVED'', st)) \<and>
     (current_allowance < amount \<longrightarrow>
        (\<forall>nonce transaction tx_hash.
           get_transaction_count W st account = Some nonce \<and>
           build_transaction W st
             \<lparr> tx_to = checksum_token, tx_call = Approve checksum_spender amount,
               tx_sender = account, tx_value = 0, tx_nonce = nonce,
               tx_maxFeePerGas = to_wei_gwei (fst (gas_params gas_mode)),
               tx_maxPriorityFeePerGas = to_wei_gwei (snd (gas_params gas_mode)),
               tx_chainId = CHAIN_ID, tx_gas = None \<rparr> = Some transaction \<and>
           send_raw_transaction W st (transaction, private_key) = Some tx_hash
           \<longrightarrow> approve_token W st token_address spender_address amount private_key gas_mode =
                 (Some tx_hash, st \<lparr> sent := sent st @ [(transaction, private_key)] \<rparr>)) \<and>
        (get_transaction_count W st account = None \<or>
         (\<exists>nonce. get_transaction_count W st account = Some nonce \<and>
           build_transaction W st
             \<lparr> tx_to = checksum_token, tx_call = Approve checksum_spender amount,
               tx_sender = account, tx_value = 0, tx_nonce = nonce,
               tx_maxFeePerGas = to_wei_gwei (fst (gas_params gas_mode)),
               tx_maxPriorityFeePerGas = to_wei_gwei (snd (gas_params gas_mode)),
               tx_chainId = CHAIN_ID, tx_gas = None \<rparr> = None)
         \<longrightarrow> approve_token W st token_address spender_address amount private_key gas_mode =
               (None, st))) \<and>
     (sent (snd (approve_token W st token_address spender_address amount private_key gas_mode)) =
        sent st \<or>
      (\<exists>transaction.
         sent (snd (approve_token W st token_address spender_address amount private_key
           gas_mode)) = sent st @ [(transaction, private_key)] \<and>
         tx_call transaction = Approve checksum_spender amount))"
proof (intro conjI impI allI)
  assume "amount \<le> current_allowance"
  with assms show "approve_token W st token_address spender_address amount private_key gas_mode =
      (Some ''ALREADY_APPROVED'', st)"
    by (simp add: approve_token_def approve_request_def)
next
  fix nonce transaction tx_hash
  assume "current_allowance < amount"
    and "get_transaction_count W st account = Some nonce \<and>
           build_transaction W st
             \<lparr> tx_to = checksum_token, tx_call = Approve checksum_spender amount,
               tx_sender = account, tx_value = 0, tx_nonce = nonce,
               tx_maxFeePerGas = to_wei_gwei (fst (gas_params gas_mode)),
               tx_maxPriorityFeePerGas = to_wei_gwei (snd (gas_params gas_mode)),
               tx_chainId = CHAIN_ID, tx_gas = None \<rparr> = Some transaction \<and>
           send_raw_transaction W st (transaction, private_key) = Some tx_hash"
  with assms show "approve_token W st token_address spender_address amount private_key gas_mode =
      (Some tx_hash, st \<lparr> sent := sent st @ [(transaction, private_key)] \<rparr>)"
    by (simp add: approve_token_def approve_request_def sign_and_send_def)
next
  assume "current_allowance < amount"
    and "get_transaction_count W st account = None \<or>
         (\<exists>nonce. get_transaction_count W st account = Some nonce \<and>
           build_transaction W st
             \<lparr> tx_to = checksum_token, tx_call = Approve checksum_spender amount,
               tx_sender = account, tx_value = 0, tx_nonce = nonce,
               tx_maxFeePerGas = to_wei_gwei (fst (gas_params gas_mode)),
               tx_maxPriorityFeePerGas = to_wei_gwei (snd (gas_params gas_mode)),
               tx_chainId = CHAIN_ID, tx_gas = None \<rparr> = None)"
  with assms show "approve_token W st token_address spender_address amount private_key gas_mode =
      (None, st)"
    by (auto simp: approve_token_def approve_request_def)
next
  from assms show "sent (snd (approve_token W st token_address spender_address amount private_key
      gas_mode)) = sent st \<or>
      (\<exists>transaction.
         sent (snd (approve_token W st token_address spender_address amount private_key
           gas_mode)) = sent st @ [(transaction, private_key)] \<and>
         tx_call transaction = Approve checksum_spender amount)"
    by (auto simp: approve_token_def approve_request_def sign_and_send_def
        build_transaction_def split: option.splits)
qed

theorem approve_token_dispatch_witness:
  "approve_token (example_web3 1000 True) example_world dup_one
     ''0xfb8e1c3b833f9e67a71c859a132cf783b645e436'' 5 ''0xkey'' ''normal'' =
     (Some ''ALREADY_APPROVED'', example_world) \<and>
   approve_token (example_web3 1000 True) example_world dup_one
     ''0xfb8e1c3b833f9e67a71c859a132cf783b645e436'' 10 ''0xkey'' ''normal'' =
     (Some ''0x5e17'',
      example_world \<lparr> sent := sent example_world @
        [(\<lparr> tx_to = dup_one,
             tx_call = Approve ''0xfb8e1c3b833f9e67a71c859a132cf783b645e436'' 10,
             tx_sender = example_wallet, tx_value = 0, tx_nonce = 0,
             tx_maxFeePerGas = 100000000000, tx_maxPriorityFeePerGas = 2000000000,
             tx_chainId = 10143, tx_gas = Some 200000 \<rparr>, ''0xkey'')] \<rparr>)"
proof -
  let ?W = "example_web3 1000 True"
  let ?router = "''0xfb8e1c3b833f9e67a71c859a132cf783b645e436''"
  have a1: "to_checksum_address ?W dup_one = Some dup_one"
    and a2: "to_checksum_address ?W ?router = Some ?router"
    and a3: "account_from_key ?W ''0xkey'' = Some example_wallet"
    and a4: "allowance ?W example_world dup_one example_wallet ?router = Some 5"
    by (simp_all add: example_web3_def dup_one_def startswith_def)
  note d = approve_token_dispatch [OF a1 a2 a3 a4, of _ "''normal''"]
  have w1: "approve_token ?W example_world dup_one ?router 5 ''0xkey'' ''normal'' =
      (Some ''ALREADY_APPROVED'', example_world)"
    using d [of 5, THEN conjunct1] by simp
  let ?tx = "\<lparr> tx_to = dup_one, tx_call = Approve ?router 10,
             tx_sender = example_wallet, tx_value = 0, tx_nonce = 0,
             tx_maxFeePerGas = 100000000000, tx_maxPriorityFeePerGas = 2000000000,
             tx_chainId = 10143, tx_gas = Some 200000 \<rparr>"
  have steps: "get_transaction_count ?W example_world example_wallet = Some 0 \<and>
      build_transaction ?W example_world
        \<lparr> tx_to = dup_one, tx_call = Approve ?router 10,
          tx_sender = example_wallet, tx_value = 0, tx_nonce = 0,
          tx_maxFeePerGas = to_wei_gwei (fst (gas_params ''normal'')),
          tx_maxPriorityFeePerGas = to_wei_gwei (snd (gas_params ''normal'')),
          tx_chainId = CHAIN_ID, tx_gas = None \<rparr> = Some ?tx \<and>
      send_raw_transaction ?W example_world (?tx, ''0xkey'') = Some ''0x5e17''"
    by (simp add: example_web3_def example_world_def build_transaction_def to_wei_gwei_def
        gas_params_def CHAIN_ID_def)
  have w2: "approve_token ?W example_world dup_one ?router 10 ''0xkey'' ''normal'' =
      (Some ''0x5e17'', example_world \<lparr> sent := sent example_world @ [(?tx, ''0xkey'')] \<rparr>)"
    using d [of 10, THEN conjunct2, THEN conjunct1] steps by simp
  from w1 w2 show ?thesis by (intro conjI)
qed

lemma buy_request_SomeD:
  assumes "buy_request W st token_address amount_monad wallet_address private_key slippage
      gas_mode = Some (transaction, expected_output, min_output)"
  shows "\<exists>checksum_token checksum_weth checksum_wallet amount_in_wei amounts_out.
      to_checksum_address W token_address = Some checksum_token \<and>
      to_checksum_address W WETH_ADDRESS = Some checksum_weth \<and>
      to_checksum_address W wallet_address = Some checksum_wallet \<and>
      to_wei_ether W amount_monad = Some amount_in_wei \<and>
      getAmountsOut W st amount_in_wei [checksum_weth, checksum_token] = Some amounts_out \<and>
      amounts_out \<noteq> [] \<and>
      expected_output = last amounts_out \<and>
      min_output = min_output_of expected_output slippage \<and>
      tx_call transaction =
        SwapExactETHForTokens min_output [checksum_weth, checksum_token] checksum_wallet
          (buy_deadline st) \<and>
      tx_value transaction = amount_in_wei"
  using assms
  by (auto simp: buy_request_def build_transaction_def Let_def split: option.splits if_splits)

lemma buy_token_returns:
  assumes "buy_token W st token_address amount_monad wallet_address private_key slippage
      gas_mode = (Some result, st')"
  shows "\<exists>transaction.
      buy_request W st token_address amount_monad wallet_address private_key slippage gas_mode =
        Some (transaction, br_expected_output result, br_min_output result) \<and>
      st' = st \<lparr> sent := sent st @ [(transaction, private_key)] \<rparr>"
  using assms
  by (auto simp: buy_token_def sign_and_send_def split: option.splits prod.splits)

text \<open>
  Claim C6, as stated: the minimum output is the floor of the exact product
  \<open>expected_output \<times> (1 - slippage / 100)\<close>. The code evaluates the product in floating
  point, so the two differ for a quote that a float does not hold exactly: with a
  slippage of 5.0 and a quote of 999999999999999999 base units, \<open>buy_token\<close> returns the
  minimum output 950000000000000000, and the floor of the exact product is
  949999999999999999.
\<close>

theorem buy_token_min_output_counterexample:
  "map_option br_expected_output
     (fst (buy_token (example_web3 999999999999999999 True) example_world dup_one (1 / 2)
        example_wallet ''0xkey'' 5 ''normal'')) = Some 999999999999999999 \<and>
   map_option br_min_output
     (fst (buy_token (example_web3 999999999999999999 True) example_world dup_one (1 / 2)
        example_wallet ''0xkey'' 5 ''normal'')) = Some 950000000000000000 \<and>
   \<lfloor>(999999999999999999 :: rat) * (1 - 5 / 100)\<rfloor> = 949999999999999999"
  by code_simp

text \<open>
  Claim C6, amended. When \<open>buy_token\<close> returns a result, its expected output is the last
  element of the router's \<open>getAmountsOut\<close> quote for the amount paid in along
  [wrapped-native, token], and its minimum output is
  \<open>int(expected_output * (1 - slippage / 100))\<close> evaluated as Python does: the quote
  converted to a float, each operation rounded to the nearest float, and the product
  truncated toward zero. That value is the \<open>amountOutMin\<close> of the swap submitted. With a
  slippage of 5.0 and an expected output of 1000 base units it is 950.
\<close>

theorem buy_token_min_output:
  assumes "buy_token W st token_address amount_monad wallet_address private_key slippage
      gas_mode = (Some result, st')"
  shows "\<exists>checksum_token checksum_weth checksum_wallet amount_in_wei amounts_out transaction
        deadline.
      to_checksum_address W token_address = Some checksum_token \<and>
      to_checksum_address W WETH_ADDRESS = Some checksum_weth \<and>
      to_wei_ether W amount_monad = Some amount_in_wei \<and>
      getAmountsOut W st amount_in_wei [checksum_weth, checksum_token] = Some amounts_out \<and>
      amounts_out \<noteq> [] \<and>
      br_expected_output result = last amounts_out \<and>
      br_min_output result =
        int_of_float
          (float_mul (float_of_int (br_expected_output result))
             (float_sub 1 (float_div slippage 100))) \<and>
      sent st' = sent st @ [(transaction, private_key)] \<and>
      tx_call transaction =
        SwapExactETHForTokens (br_min_output result) [checksum_weth, checksum_token]
          checksum_wallet deadline \<and>
      (slippage = 5 \<and> br_expected_output result = 1000 \<longrightarrow> br_min_output result = 950)"
proof -
  from buy_token_returns [OF assms] obtain transaction where
    req: "buy_request W st token_address amount_monad wallet_address private_key slippage
      gas_mode = Some (transaction, br_expected_output result, br_min_output result)"
    and st': "st' = st \<lparr> sent := sent st @ [(transaction, private_key)] \<rparr>"
    by blast
  from buy_request_SomeD [OF req] obtain checksum_token checksum_weth checksum_wallet
    amount_in_wei amounts_out where
    facts: "to_checksum_address W token_address = Some checksum_token"
      "to_checksum_address W WETH_ADDRESS = Some checksum_weth"
      "to_wei_ether W amount_monad = Some amount_in_wei"
      "getAmountsOut W st amount_in_wei [checksum_weth, checksum_token] = Some amounts_out"
      "amounts_out \<noteq> []"
      "br_expected_output result = last amounts_out"
    and m: "br_min_output result = min_output_of (br_expected_output result) slippage"
    and call: "tx_call transaction =
        SwapExactETHForTokens (br_min_output result) [checksum_weth, checksum_token]
          checksum_wallet (buy_deadline st)"
    by blast
  have example: "min_output_of 1000 5 = 950"
    by code_simp
  from m example have inst: "slippage = 5 \<and> br_expected_output result = 1000 \<longrightarrow>
      br_min_output result = 950"
    by simp
  from st' have "sent st' = sent st @ [(transaction, private_key)]"
    by simp
  with facts m call inst show ?thesis
    unfolding min_output_of_def by blast
qed

theorem buy_token_min_output_witness:
  "map_option br_expected_output
     (fst (buy_token (example_web3 1000 True) example_world dup_one (1 / 2) example_wallet
        ''0xkey'' 5 ''normal'')) = Some 1000 \<and>
   map_option br_min_output
     (fst (buy_token (example_web3 1000 True) example_world dup_one (1 / 2) example_wallet
        ''0xkey'' 5 ''normal'')) = Some 950"
proof -
  obtain result st' where run: "buy_token (example_web3 1000 True) example_world dup_one (1 / 2)
      example_wallet ''0xkey'' 5 ''normal'' = (result, st')"
    by (cases "buy_token (example_web3 1000 True) example_world dup_one (1 / 2)
      example_wallet ''0xkey'' 5 ''normal''")
  have "map_option br_expected_output
     (fst (buy_token (example_web3 1000 True) example_world dup_one (1 / 2) example_wallet
        ''0xkey'' 5 ''normal'')) = Some 1000"
    by code_simp
  with run obtain r where r: "result = Some r" and e: "br_expected_output r = 1000"
    by auto
  from buy_token_min_output [OF run [unfolded r]] e have "br_min_output r = 950"
    by auto
  with run r e show ?thesis by simp
qed

lemma sell_token_returns:
  assumes "sell_token W st token_address amount_tokens wallet_address private_key slippage
      gas_mode = (Some result, st')"
  shows "\<exists>st2 checksum_token checksum_weth checksum_wallet amount_in_wei transaction
        expected_output min_output.
      now st \<le> now st2 \<and>
      sell_request W st2 checksum_token checksum_weth checksum_wallet amount_in_wei
        private_key slippage gas_mode = Some (transaction, expected_output, min_output) \<and>
      st' = st2 \<lparr> sent := sent st2 @ [(transaction, private_key)] \<rparr>"
proof -
  from assms obtain checksum_token checksum_weth checksum_wallet amount_in_wei where
    amt: "sell_amount W token_address wallet_address amount_tokens =
      Some (checksum_token, checksum_weth, checksum_wallet, amount_in_wei)"
    by (auto simp: sell_token_def split: option.splits)
  obtain approve_hash st1 where ap: "approve_token W st token_address (DEX_ROUTER_ADDRESS W)
      (amount_in_wei * 2) private_key gas_mode = (approve_hash, st1)"
    by (cases "approve_token W st token_address (DEX_ROUTER_ADDRESS W)
      (amount_in_wei * 2) private_key gas_mode")
  define st2 where "st2 = (if truthy approve_hash \<and> approve_hash \<noteq> Some ''ALREADY_APPROVED''
      then sleep 3 st1 else st1)"
  from approve_token_state [OF ap] have "now st1 = now st" by simp
  then have le: "now st \<le> now st2"
    by (simp add: st2_def sleep_def)
  from assms amt ap have "\<exists>transaction expected_output min_output.
      sell_request W st2 checksum_token checksum_weth checksum_wallet amount_in_wei
        private_key slippage gas_mode = Some (transaction, expected_output, min_output) \<and>
      st' = st2 \<lparr> sent := sent st2 @ [(transaction, private_key)] \<rparr>"
    unfolding st2_def
    by (auto simp: sell_token_def sign_and_send_def Let_def split: option.splits prod.splits)
  with le show ?thesis by blast
qed

lemma sell_request_SomeD:
  assumes "sell_request W st checksum_token checksum_weth checksum_wallet amount_in_wei
      private_key slippage gas_mode = Some (transaction, expected_output, min_output)"
  shows "tx_call transaction =
      SwapExactTokensForETH amount_in_wei min_output [checksum_token, checksum_weth]
        checksum_wallet (sell_deadline st)"
  using assms
  by (auto simp: sell_request_def build_transaction_def Let_def split: option.splits if_splits)

text \<open>
  Claim C7. When \<open>buy_token\<close> returns a result, the swap it submitted carries the deadline
  \<open>int(time.time()) + 300\<close>, for the clock reading at the call; when \<open>sell_token\<close> returns a
  result, the swap it submitted last carries the deadline \<open>int(time.time()) + 1200\<close>, for
  the clock reading at submission, which is not before the call. In both the deadline is
  strictly after the time of the call.
\<close>

theorem swap_deadlines:
  "(buy_token W st token_address amount_monad wallet_address private_key slippage gas_mode =
      (Some bought, st_buy) \<longrightarrow>
      (\<exists>transaction min_output path recipient.
         sent st_buy = sent st @ [(transaction, private_key)] \<and>
         tx_call transaction =
           SwapExactETHForTokens min_output path recipient (int_of_float (now st) + 300)) \<and>
      now st < of_int (int_of_float (now st) + 300)) \<and>
   (sell_token W st token_address amount_tokens wallet_address private_key slippage gas_mode =
      (Some sold, st_sell) \<longrightarrow>
      (\<exists>transaction amount_in min_output path recipient.
         sent st_sell \<noteq> [] \<and> last (sent st_sell) = (transaction, private_key) \<and>
         tx_call transaction =
           SwapExactTokensForETH amount_in min_output path recipient
             (int_of_float (now st_sell) + 1200)) \<and>
      now st \<le> now st_sell \<and>
      now st < of_int (int_of_float (now st_sell) + 1200))"
proof (intro conjI impI)
  assume run: "buy_token W st token_address amount_monad wallet_address private_key slippage
      gas_mode = (Some bought, st_buy)"
  from buy_token_returns [OF run] obtain transaction where
    req: "buy_request W st token_address amount_monad wallet_address private_key slippage
      gas_mode = Some (transaction, br_expected_output bought, br_min_output bought)"
    and st': "st_buy = st \<lparr> sent := sent st @ [(transaction, private_key)] \<rparr>"
    by blast
  from buy_request_SomeD [OF req] obtain path recipient where
    "tx_call transaction =
       SwapExactETHForTokens (br_min_output bought) path recipient (buy_deadline st)"
    by blast
  with st' show "\<exists>transaction min_output path recipient.
         sent st_buy = sent st @ [(transaction, private_key)] \<and>
         tx_call transaction =
           SwapExactETHForTokens min_output path recipient (int_of_float (now st) + 300)"
    by (auto simp: buy_deadline_def)
  show "now st < of_int (int_of_float (now st) + 300)"
    using int_of_float_gt [of "now st"] by simp
next
  assume run: "sell_token W st token_address amount_tokens wallet_address private_key slippage
      gas_mode = (Some sold, st_sell)"
  from sell_token_returns [OF run] obtain st2 checksum_token checksum_weth checksum_wallet
    amount_in_wei transaction expected_output min_output where
    le: "now st \<le> now st2"
    and req: "sell_request W st2 checksum_token checksum_weth checksum_wallet amount_in_wei
        private_key slippage gas_mode = Some (transaction, expected_output, min_output)"
    and st': "st_sell = st2 \<lparr> sent := sent st2 @ [(transaction, private_key)] \<rparr>"
    by blast
  from st' have now: "now st_sell = now st2" by simp
  from sell_request_SomeD [OF req] st' now
  show "\<exists>transaction amount_in min_output path recipient.
         sent st_sell \<noteq> [] \<and> last (sent st_sell) = (transaction, private_key) \<and>
         tx_call transaction =
           SwapExactTokensForETH amount_in min_output path recipient
             (int_of_float (now st_sell) + 1200)"
    by (auto simp: sell_deadline_def)
  from le now show "now st \<le> now st_sell" by simp
  from le now show "now st < of_int (int_of_float (now st_sell) + 1200)"
    using int_of_float_gt [of "now st_sell"] by simp
qed

theorem swap_deadlines_witness:
  "(\<exists>transaction min_output path recipient.
      sent (snd (buy_token (example_web3 1000 True) example_world dup_one (1 / 2)
        example_wallet ''0xkey'' 5 ''normal'')) =
        sent example_world @ [(transaction, ''0xkey'')] \<and>
      tx_call transaction = SwapExactETHForTokens min_output path recipient 1700000300) \<and>
   (\<exists>transaction amount_in min_output path recipient.
      last (sent (snd (sell_token (example_web3 1000 True) example_world dup_one (1 / 2)
        example_wallet ''0xkey'' 5 ''normal''))) = (transaction, ''0xkey'') \<and>
      tx_call transaction =
        SwapExactTokensForETH amount_in min_output path recipient 1700001203) \<and>
   now example_world < 1700000300"
proof -
  let ?W = "example_web3 1000 True"
  obtain bought st_buy where buy: "buy_token ?W example_world dup_one (1 / 2)
      example_wallet ''0xkey'' 5 ''normal'' = (bought, st_buy)"
    by (cases "buy_token ?W example_world dup_one (1 / 2) example_wallet ''0xkey'' 5 ''normal''")
  have "fst (buy_token ?W example_world dup_one (1 / 2) example_wallet ''0xkey'' 5 ''normal'')
      \<noteq> None"
    by code_simp
  with buy obtain b where b: "bought = Some b" by auto
  obtain sold st_sell where sell: "sell_token ?W example_world dup_one (1 / 2)
      example_wallet ''0xkey'' 5 ''normal'' = (sold, st_sell)"
    by (cases "sell_token ?W example_world dup_one (1 / 2) example_wallet ''0xkey'' 5 ''normal''")
  have "fst (sell_token ?W example_world dup_one (1 / 2) example_wallet ''0xkey'' 5 ''normal'')
      \<noteq> None"
    by code_simp
  with sell obtain s where s: "sold = Some s" by auto
  have t0: "int_of_float (now example_world) = 1700000000"
    by code_simp
  have "int_of_float (now (snd (sell_token ?W example_world dup_one (1 / 2) example_wallet
      ''0xkey'' 5 ''normal''))) = 1700000003"
    by code_simp
  with sell have t1: "int_of_float (now st_sell) = 1700000003"
    by simp
  note d = swap_deadlines [of ?W example_world dup_one "1 / 2" example_wallet "''0xkey''" 5
      "''normal''" b st_buy "1 / 2" s st_sell]
  from d buy b have w1: "\<exists>transaction min_output path recipient.
      sent st_buy = sent example_world @ [(transaction, ''0xkey'')] \<and>
      tx_call transaction = SwapExactETHForTokens min_output path recipient 1700000300"
    by (simp add: t0)
  from d buy b have w3: "now example_world < 1700000300"
    by (simp add: t0)
  from d sell s have w2: "\<exists>transaction amount_in min_output path recipient.
      last (sent st_sell) = (transaction, ''0xkey'') \<and>
      tx_call transaction =
        SwapExactTokensForETH amount_in min_output path recipient 1700001203"
    by (simp add: t1)
  from w1 w2 w3 buy sell show ?thesis by simp
qed

subsection \<open>Portfolio allocation\<close>

lemma float_round_examples:
  "float_round 1000 = 1000" "float_round 900 = 900" "float_round 800 = 800"
  "float_round 10 = 10" "float_round 5 = 5" "float_round 100 = 100"
  by code_simp+

text \<open>The allocation for the five balances of the spec's example, for any symbols and
  any values that leave the quantity basis in force.\<close>

lemma five_balances_allocation:
  assumes "map h_balance displayed = [1000, 900, 800, 10, 5]"
    and "\<not> use_price_allocation displayed"
  shows "reference_balance displayed = 10 \<and>
         outlier_threshold displayed = 100 \<and>
         map h_balance (filter (above_threshold displayed) displayed) = [1000, 900, 800] \<and>
         map h_balance (filter (\<lambda>t. \<not> above_threshold displayed t) displayed) = [10, 5] \<and>
         outlier_tokens (choose_allocation displayed) = [] \<and>
         tokens_for_calc (choose_allocation displayed) = displayed \<and>
         allocation_mode (choose_allocation displayed) = ''quantity'' \<and>
         total_count (choose_allocation displayed) = 2715"
proof -
  from assms(1) obtain a b c d e where displayed: "displayed = [a, b, c, d, e]"
    and bal: "h_balance a = 1000" "h_balance b = 900" "h_balance c = 800"
      "h_balance d = 10" "h_balance e = 5"
    by (auto simp: map_eq_Cons_conv)
  have sorted: "sorted_reverse (\<lambda>x. float_of_decimal (h_balance x)) displayed = [a, b, c, d, e]"
    by (simp add: displayed sorted_reverse_def float_of_decimal_def bal float_round_examples)
  have ref: "reference_balance displayed = 10"
    unfolding reference_balance_def sorted
    by (simp add: float_of_decimal_def bal float_round_examples)
  have thr: "outlier_threshold displayed = 100"
    by (simp add: outlier_threshold_def ref float_mul_def float_round_examples)
  have above: "above_threshold displayed a" "above_threshold displayed b"
    "above_threshold displayed c" "\<not> above_threshold displayed d"
    "\<not> above_threshold displayed e"
    by (simp_all add: above_threshold_def thr float_of_decimal_def bal float_round_examples)
  have out: "filter (above_threshold displayed) displayed = [a, b, c]"
    and keep: "filter (\<lambda>t. \<not> above_threshold displayed t) displayed = [d, e]"
    using above by (simp_all add: displayed)
  have alloc: "choose_allocation displayed =
      \<lparr> tokens_for_calc = displayed, outlier_tokens = [], allocation_mode = ''quantity'' \<rparr>"
    using assms(2) by (simp add: choose_allocation_def Let_def keep)
  have "sum_floats [1000, 900, 800, 10, 5] = 2715"
    by code_simp
  then have total: "total_count (choose_allocation displayed) = 2715"
    by (simp add: total_count_def alloc)
      (simp add: displayed float_of_decimal_def bal float_round_examples)
  from ref thr out keep alloc total show ?thesis
    by (simp add: bal)
qed


lemma example_holdings_quantity:
  "map h_balance example_holdings = [1000, 900, 800, 10, 5]"
  "\<not> use_price_allocation example_holdings"
  by (simp_all add: use_price_allocation_def tokens_with_price_def example_holdings_def)

text \<open>
  Claim C3, as stated: with the five displayed balances 1000, 900, 800, 10 and 5 on the
  quantity basis, the holdings with balances 1000, 900 and 800 are excluded as outliers
  and those with 10 and 5 form the percentage base. The code abandons the exclusion,
  because it would leave two holdings, fewer than three: no holding is an outlier, and
  all five form the base.
\<close>

theorem outlier_suppression_counterexample:
  "map h_balance example_holdings = [1000, 900, 800, 10, 5] \<and>
   \<not> use_price_allocation example_holdings \<and>
   map h_balance (outlier_tokens (choose_allocation example_holdings)) = [] \<and>
   map h_balance (tokens_for_calc (choose_allocation example_holdings)) =
     [1000, 900, 800, 10, 5]"
  using example_holdings_quantity five_balances_allocation [OF example_holdings_quantity]
  by simp

text \<open>
  Claim C3, amended. For five displayed holdings with the balances 1000, 900, 800, 10 and
  5, in this order, on the quantity basis: the reference (the 4th-largest balance) is 10
  and the outlier threshold is 100; the holdings above the threshold are the three with
  balances 1000, 900 and 800, and the two with 10 and 5 are not above it; since only two
  holdings would remain, the exclusion is abandoned: no holding is flagged as an outlier,
  all five holdings form the percentage base, and the denominator is 2715.
\<close>

theorem outlier_suppression_abandoned:
  assumes "map h_balance displayed = [1000, 900, 800, 10, 5]"
    and "\<not> use_price_allocation displayed"
  shows "reference_balance displayed = 10 \<and>
         outlier_threshold displayed = 100 \<and>
         map h_balance (filter (above_threshold displayed) displayed) = [1000, 900, 800] \<and>
         map h_balance (filter (\<lambda>t. \<not> above_threshold displayed t) displayed) = [10, 5] \<and>
         outlier_tokens (choose_allocation displayed) = [] \<and>
         tokens_for_calc (choose_allocation displayed) = displayed \<and>
         allocation_mode (choose_allocation displayed) = ''quantity'' \<and>
         total_count (choose_allocation displayed) = 2715"
  using assms by (rule five_balances_allocation)

theorem outlier_suppression_abandoned_witness:
  "reference_balance example_holdings = 10 \<and>
   outlier_threshold example_holdings = 100 \<and>
   outlier_tokens (choose_allocation example_holdings) = [] \<and>
   tokens_for_calc (choose_allocation example_holdings) = example_holdings"
  using outlier_suppression_abandoned [OF example_holdings_quantity] by simp
end
